theory Spec2Isabelle
  imports Complex_Main "HOL-Library.Word" "HOL-Library.Multiset"
begin

section \<open>Common vocabulary\<close>

text \<open>
  Ways in which a routine of the library fails to return a value. Each of them is a
  branch of the model, so that a theorem about a returned value is a theorem about a
  run that really returns.
  \<^item> \<open>Integer_division_by_zero\<close>: an \<open>int\<close> division whose divisor is zero;
  \<^item> \<open>Int_overflow\<close>: an \<open>int\<close> computation, or a count stored in an \<open>int\<close>, whose
    value is \<open>2^31\<close> or more;
  \<^item> \<open>Out_of_bounds\<close>: an array or a \<open>std::vector\<close> indexed outside its extent;
  \<^item> \<open>Counter_wraps\<close>: an \<open>unsigned short\<close> loop counter is incremented past 65535
    inside a loop whose guard compares it with a bound it can never exceed;
  \<^item> \<open>Loop_diverges\<close>: a loop \<open>for(unsigned short nu = 0; nu < mu; ++nu)\<close> whose
    \<open>int\<close> bound is above 65535, which no value of the counter reaches.
\<close>

datatype failure =
  Integer_division_by_zero | Int_overflow | Out_of_bounds | Counter_wraps | Loop_diverges


text \<open>Two facts on \<open>unsigned short\<close> counters, used where a loop over one is shown to
  end.\<close>

lemma unat_succ16: "(i :: 16 word) \<noteq> - 1 \<Longrightarrow> unat (i + 1) = unat i + 1"
proof -
  assume "i \<noteq> - 1"
  then have "1 + i \<noteq> 0"
    by (simp add: add_eq_0_iff)
  then show ?thesis using unatSuc[of i] by (simp add: add.commute)
qed

lemma unat_lt16: "unat (i :: 16 word) < 65536"
  using unsigned_less[of i] by simp

lemma measure_succ16: "(i :: 16 word) \<noteq> - 1 \<Longrightarrow> 65536 - unat (i + 1) < 65536 - unat i"
  using unat_lt16[of i] by (simp add: unat_succ16)

section \<open>The direct solver: \<open>SuiteSparseSub\<close> (src/src/SuiteSparse.hpp)\<close>

text \<open>
  The template parameter \<open>K\<close>. \<open>stsprs\<close> is specialised for \<open>double\<close> and
  \<open>std::complex<double>\<close> only, and \<open>numfact\<close> names \<open>stsprs<K>\<close>, so these are the
  two scalar types the class can be instantiated with.
\<close>

datatype scalar_type = Real_double | Complex_double

text \<open>\<open>MatrixCSR<K>\<close>: the fields \<open>numfact\<close> reads (\<open>_sym\<close>, \<open>_m\<close>, \<open>_n\<close>, \<open>_nnz\<close>,
  \<open>_ia\<close>, \<open>_ja\<close>, \<open>_a\<close>). The sizes and the indices are \<open>int\<close>s in the source; they are
  kept here as the natural numbers they hold, and every \<open>int\<close> or \<open>unsigned int\<close>
  computation of \<open>numfact\<close> and \<open>solve\<close> on them that can leave its range is a failure
  branch of the function that makes it.\<close>

record 'k MatrixCSR =
  A_sym :: bool
  A_m :: nat
  A_n :: nat
  A_nnz :: nat
  A_ia :: "nat list"
  A_ja :: "nat list"
  A_a :: "'k list"

datatype xtype = CHOLMOD_REAL | CHOLMOD_COMPLEX

text \<open>The \<open>cholmod_sparse\<close> header that \<open>numfact\<close> fills in before the analysis.\<close>

record 'k cholmod_sparse =
  M_nrow :: nat
  M_ncol :: nat
  M_nzmax :: nat
  M_sorted :: int
  M_packed :: int
  M_stype :: int
  M_xtype :: xtype
  M_p :: "nat list"
  M_i :: "nat list"
  M_x :: "'k list"

text \<open>The \<open>cholmod_dense\<close> headers \<open>_b\<close> and \<open>_x\<close>; \<open>D_x\<close> is the data pointer
  (\<open>None\<close> for \<open>NULL\<close>).\<close>

record 'k cholmod_dense =
  D_nrow :: nat
  D_ncol :: nat
  D_nzmax :: nat
  D_d :: nat
  D_x :: "'k list option"
  D_xtype :: xtype

text \<open>
  CHOLMOD and UMFPACK are external libraries. What they return is kept symbolic: a
  factor is the matrix \<open>cholmod_analyze\<close> and \<open>cholmod_factorize\<close> were given, a numeric
  object is the arguments of \<open>umfpack_symbolic\<close> and \<open>umfpack_numeric\<close> (sizes, the three
  CSR arrays, the control array).
\<close>

datatype cholmod_common = Cholmod_common

datatype 'k cholmod_factor = Cholmod_factor "'k cholmod_sparse"

datatype 'k umfpack_numeric = Umfpack_numeric nat nat "nat list" "nat list" "'k list" "real list"

text \<open>The calls into the two libraries, in the order a member function makes them.\<close>

datatype lib_call =
    Call_cholmod_start | Call_cholmod_analyze | Call_cholmod_factorize | Call_cholmod_solve2
  | Call_umfpack_defaults | Call_umfpack_symbolic | Call_umfpack_numeric
  | Call_umfpack_report_info | Call_umfpack_free_symbolic | Call_umfpack_wsolve

text \<open>
  The members of \<open>SuiteSparseSub<K>\<close>. A pointer member is an option (\<open>None\<close> is the
  null pointer the constructor stores). \<open>W\<close> points into the array \<open>tmp\<close>: it is kept
  as its offset there. \<open>pattern\<close> is an \<open>int\<close> workspace of which only the length is
  known.
\<close>

record 'k SuiteSparseSub =
  S_L :: "'k cholmod_factor option"
  S_c :: "cholmod_common option"
  S_b :: "'k cholmod_dense option"
  S_x :: "'k cholmod_dense option"
  S_Y :: "'k cholmod_dense option"
  S_E :: "'k cholmod_dense option"
  S_numeric :: "'k umfpack_numeric option"
  S_control :: "real list option"
  S_pattern :: "nat option"
  S_W :: "nat option"
  S_tmp :: "'k list option"

text \<open>The constructor: every member value-initialised.\<close>

definition SuiteSparseSub_new :: "'k SuiteSparseSub" where
  "SuiteSparseSub_new =
     \<lparr>S_L = None, S_c = None, S_b = None, S_x = None, S_Y = None, S_E = None, S_numeric = None,
      S_control = None, S_pattern = None, S_W = None, S_tmp = None\<rparr>"

text \<open>
  What \<open>numfact\<close> and \<open>solve\<close> take from outside the file: the macro \<open>HPDDM_EPS\<close>,
  \<open>std::abs\<close> on \<open>K\<close>, \<open>std::sort\<close> with the comparison of line 367, the indices
  \<open>UMFPACK_PRL\<close> and \<open>UMFPACK_IRSTEP\<close>, the array \<open>umfpack_defaults\<close> writes, the contents
  of a freshly allocated array of a given length, and the two solve routines of the
  libraries. The comparison of line 367 looks at the column index of a pair only and
  \<open>std::sort\<close> is not stable, so the order in which it leaves two entries of the same
  column is not fixed by the source: \<open>std_sort\<close> is a parameter, and
  \<open>sorts_by_column\<close> is what the C++ standard guarantees of it.
\<close>

record 'k suitesparse_env =
  HPDDM_EPS :: real
  std_abs :: "'k \<Rightarrow> real"
  std_sort :: "(nat \<times> 'k) list \<Rightarrow> (nat \<times> 'k) list"
  UMFPACK_PRL :: nat
  UMFPACK_IRSTEP :: nat
  umfpack_defaults :: "real list"
  new_array :: "nat \<Rightarrow> 'k list"
  cholmod_solve2 :: "'k cholmod_factor \<Rightarrow> nat \<Rightarrow> 'k list \<Rightarrow> 'k list"
  umfpack_wsolve :: "'k umfpack_numeric \<Rightarrow> 'k list \<Rightarrow> 'k list"


subsection \<open>Expansion of a symmetric matrix to full storage\<close>

text \<open>
  Lines 344 to 359. Row \<open>i\<close> of the symmetric storage holds its off-diagonal entries at
  the positions \<open>_ia[i] .. _ia[i + 1] - 2\<close> (the list \<open>offdiag A i\<close>) and its diagonal
  entry last. An off-diagonal entry whose magnitude is above \<open>HPDDM_EPS\<close> (\<open>kept\<close>) is
  appended to \<open>v[i]\<close> and, mirrored, to \<open>v[_ja[j]]\<close>; the diagonal entry is appended to
  \<open>v[i]\<close> whatever its magnitude.

  The bound \<open>A->_ia[i + 1] - 1\<close> of the inner loop is an \<open>int\<close>, converted to
  \<open>unsigned int\<close> for the comparison with \<open>j\<close>. When \<open>_ia[i + 1]\<close> is at least 1 this is
  the difference of natural numbers used here. When \<open>_ia[i + 1]\<close> is 0 the bound is
  4294967295, the loop runs off the arrays and line 357 reads \<open>_a[-1]\<close>; and a kept
  entry whose column index is not below \<open>_n\<close> indexes \<open>v\<close> out of its range. These are
  the inputs that \<open>sym_in_bounds\<close> excludes, and on which \<open>expand_sym\<close> below fails.
\<close>

definition kept :: "'k suitesparse_env \<Rightarrow> 'k MatrixCSR \<Rightarrow> nat \<Rightarrow> bool" where
  "kept env A j \<longleftrightarrow> std_abs env (A_a A ! j) > HPDDM_EPS env"

definition offdiag :: "'k MatrixCSR \<Rightarrow> nat \<Rightarrow> nat list" where
  "offdiag A i = [A_ia A ! i ..< A_ia A ! (i + 1) - 1]"

definition sym_in_bounds :: "'k suitesparse_env \<Rightarrow> 'k MatrixCSR \<Rightarrow> bool" where
  "sym_in_bounds env A \<longleftrightarrow>
     (\<forall>i\<in>set [0 ..< A_n A].
        0 < A_ia A ! (i + 1)
        \<and> (\<forall>j\<in>set (offdiag A i). kept env A j \<longrightarrow> A_ja A ! j < A_n A))"

definition push_entry :: "'k suitesparse_env \<Rightarrow> 'k MatrixCSR \<Rightarrow> nat \<Rightarrow> nat \<Rightarrow>
    (nat \<times> 'k) list list \<Rightarrow> (nat \<times> 'k) list list" where
  "push_entry env A i j v =
     (if kept env A j then
        (let v1 = v[i := v ! i @ [(A_ja A ! j, A_a A ! j)]]
         in v1[A_ja A ! j := v1 ! (A_ja A ! j) @ [(i, A_a A ! j)]])
      else v)"

definition push_row :: "'k suitesparse_env \<Rightarrow> 'k MatrixCSR \<Rightarrow> nat \<Rightarrow>
    (nat \<times> 'k) list list \<Rightarrow> (nat \<times> 'k) list list" where
  "push_row env A i v =
     (let v1 = fold (push_entry env A i) (offdiag A i) v
      in v1[i := v1 ! i @ [(i, A_a A ! (A_ia A ! (i + 1) - 1))]])"

definition full_rows :: "'k suitesparse_env \<Rightarrow> 'k MatrixCSR \<Rightarrow> (nat \<times> 'k) list list" where
  "full_rows env A = fold (push_row env A) [0 ..< A_n A] (replicate (A_n A) [])"

text \<open>Lines 366 to 375: every row sorted by column index, then written out as CSR
  arrays (\<open>ia[0] = 0\<close>, \<open>ia[i + 1]\<close> the number of entries of the rows up to \<open>i\<close>).\<close>

definition sorted_rows :: "'k suitesparse_env \<Rightarrow> 'k MatrixCSR \<Rightarrow> (nat \<times> 'k) list list" where
  "sorted_rows env A = map (std_sort env) (full_rows env A)"

fun row_ptr :: "nat \<Rightarrow> (nat \<times> 'k) list list \<Rightarrow> nat list" where
  "row_ptr k [] = [k]"
| "row_ptr k (r # rs) = k # row_ptr (k + length r) rs"

definition full_storage :: "'k suitesparse_env \<Rightarrow> 'k MatrixCSR \<Rightarrow> nat list \<times> nat list \<times> 'k list" where
  "full_storage env A =
     (let v = sorted_rows env A
      in (row_ptr 0 v, map fst (concat v), map snd (concat v)))"

text \<open>
  Lines 344 to 376 as a whole, with the ways in which they fail to produce the three
  arrays, in the order of the source:
  \<^item> line 345 divides by \<open>A->_n\<close>;
  \<^item> line 345 adds \<open>A->_nnz + A->_n - 1\<close> in \<open>int\<close>;
  \<^item> lines 349 to 357 index \<open>_ia\<close>, \<open>_a\<close> and \<open>v\<close> (\<open>sym_in_bounds\<close>);
  \<^item> lines 351 to 358 count the entries in the \<open>unsigned int\<close> \<open>nnz\<close>, from which line
    360 computes the size \<open>A->_n + 1 + nnz\<close> of the array that holds \<open>ja\<close> and \<open>ia\<close>, and
    which line 374 stores in the \<open>int\<close> array \<open>ia\<close>: the count has to fit an \<open>int\<close>.
\<close>

definition expand_sym :: "'k suitesparse_env \<Rightarrow> 'k MatrixCSR \<Rightarrow>
    failure + nat list \<times> nat list \<times> 'k list" where
  "expand_sym env A =
     (if A_n A = 0 then Inl Integer_division_by_zero
      else if 2 ^ 31 \<le> A_nnz A + A_n A - 1 then Inl Int_overflow
      else if \<not> sym_in_bounds env A then Inl Out_of_bounds
      else if 2 ^ 31 \<le> length (concat (full_rows env A)) then Inl Int_overflow
      else Inr (full_storage env A))"




subsection \<open>\<open>numfact\<close>\<close>

text \<open>Lines 294 to 306: the header of the matrix handed to CHOLMOD.\<close>

definition cholmod_header :: "scalar_type \<Rightarrow> 'k MatrixCSR \<Rightarrow> 'k cholmod_sparse" where
  "cholmod_header K A =
     \<lparr>M_nrow = A_m A, M_ncol = A_n A, M_nzmax = A_nnz A, M_sorted = 1, M_packed = 1,
      M_stype = 1,
      M_xtype = (if K = Complex_double then CHOLMOD_COMPLEX else CHOLMOD_REAL),
      M_p = A_ia A, M_i = A_ja A, M_x = A_a A\<rparr>"

text \<open>Lines 292 to 321: the CHOLMOD branch.\<close>

definition numfact_cholmod :: "'k suitesparse_env \<Rightarrow> scalar_type \<Rightarrow> 'k MatrixCSR \<Rightarrow>
    'k SuiteSparseSub \<Rightarrow> 'k SuiteSparseSub \<times> lib_call list" where
  "numfact_cholmod env K A S =
     (let M = cholmod_header K A;
          b = \<lparr>D_nrow = M_nrow M, D_ncol = 0, D_nzmax = 0, D_d = M_nrow M, D_x = None,
               D_xtype = M_xtype M\<rparr>;
          x = \<lparr>D_nrow = M_nrow M, D_ncol = 0, D_nzmax = 0, D_d = M_nrow M, D_x = None,
               D_xtype = M_xtype M\<rparr>
      in (S\<lparr>S_c := Some Cholmod_common, S_L := Some (Cholmod_factor M), S_b := Some b,
            S_tmp := Some (new_array env (D_nrow b)), S_x := Some x\<rparr>,
          [Call_cholmod_start, Call_cholmod_analyze, Call_cholmod_factorize]))"

text \<open>Lines 324 to 327: the control array.\<close>

definition umfpack_control :: "'k suitesparse_env \<Rightarrow> real list" where
  "umfpack_control env = (umfpack_defaults env)[UMFPACK_PRL env := 0, UMFPACK_IRSTEP env := 0]"

text \<open>Lines 338 to 376: the arrays handed to UMFPACK.\<close>

definition umfpack_input :: "'k suitesparse_env \<Rightarrow> 'k MatrixCSR \<Rightarrow>
    failure + nat list \<times> nat list \<times> 'k list" where
  "umfpack_input env A =
     (if \<not> A_sym A then Inr (A_ia A, A_ja A, A_a A) else expand_sym env A)"

text \<open>
  Lines 324 to 385: the UMFPACK branch. Line 330 computes the size \<open>6 * A->_m\<close> of
  \<open>_tmp\<close> in \<open>int\<close>, before the arrays are looked at.
\<close>

definition numfact_umfpack :: "'k suitesparse_env \<Rightarrow> 'k MatrixCSR \<Rightarrow>
    'k SuiteSparseSub \<Rightarrow> failure + 'k SuiteSparseSub \<times> lib_call list" where
  "numfact_umfpack env A S =
     (let control = umfpack_control env;
          S1 = S\<lparr>S_control := Some control, S_pattern := Some (A_m A),
                 S_tmp := Some (new_array env (6 * A_m A)), S_W := Some (A_m A), S_numeric := None\<rparr>
      in if 2 ^ 31 \<le> 6 * A_m A then Inl Int_overflow
         else
           (case umfpack_input env A of
              Inl f \<Rightarrow> Inl f
            | Inr (ia, ja, a) \<Rightarrow>
                Inr (S1\<lparr>S_numeric := Some (Umfpack_numeric (A_m A) (A_n A) ia ja a control)\<rparr>,
                     [Call_umfpack_defaults, Call_umfpack_symbolic, Call_umfpack_numeric,
                      Call_umfpack_report_info, Call_umfpack_free_symbolic])))"

text \<open>Lines 289 to 388. The second argument \<open>detection\<close> is not read.\<close>

definition numfact :: "'k suitesparse_env \<Rightarrow> scalar_type \<Rightarrow> 'k MatrixCSR \<Rightarrow>
    'k SuiteSparseSub \<Rightarrow> failure + 'k SuiteSparseSub \<times> lib_call list" where
  "numfact env K A S =
     (if S_c S = None \<and> S_W S = None then
        (if A_sym A \<and> K \<noteq> Complex_double then Inr (numfact_cholmod env K A S)
         else numfact_umfpack env A S)
      else Inr (S, []))"

subsection \<open>\<open>solve\<close>\<close>

text \<open>
  Lines 389 to 404, \<open>solve(K* x)\<close>. The result is the object (the headers \<open>_b\<close> and
  \<open>_x\<close> are written through their pointers), the new contents of \<open>x\<close> and the library
  calls made. In the UMFPACK branch \<open>std::copy(_tmp, _W, x)\<close> copies the first
  \<open>_W - _tmp\<close> entries of the solution.
\<close>

definition solve :: "'k suitesparse_env \<Rightarrow> 'k SuiteSparseSub \<Rightarrow> 'k list \<Rightarrow>
    'k SuiteSparseSub \<times> 'k list \<times> lib_call list" where
  "solve env S x =
     (if S_c S \<noteq> None then
        (let nrow = D_nrow (the (S_x S));
             b = (the (S_b S))\<lparr>D_ncol := 1, D_nzmax := nrow, D_x := Some x\<rparr>;
             sol = cholmod_solve2 env (the (S_L S)) 1 x;
             xd = (the (S_x S))\<lparr>D_ncol := 1, D_nzmax := nrow, D_x := Some sol\<rparr>
         in (S\<lparr>S_b := Some b, S_x := Some xd, S_tmp := Some sol\<rparr>,
             take nrow sol @ drop nrow x, [Call_cholmod_solve2]))
      else
        (let sol = umfpack_wsolve env (the (S_numeric S)) x;
             ld = the (S_W S)
         in (S\<lparr>S_tmp := Some (take ld sol @ drop ld (the (S_tmp S)))\<rparr>,
             take ld sol @ drop ld x, [Call_umfpack_wsolve])))"


definition solve_n :: "'k suitesparse_env \<Rightarrow> 'k SuiteSparseSub \<Rightarrow> 'k list \<Rightarrow> 16 word \<Rightarrow>
    failure + 'k SuiteSparseSub \<times> 'k list \<times> lib_call list" where
  "solve_n env S x n =
     (if S_c S \<noteq> None then
        (let nrow = D_nrow (the (S_x S));
             b = (the (S_b S))\<lparr>D_ncol := unat n, D_nzmax := nrow, D_x := Some x\<rparr>;
             sol = cholmod_solve2 env (the (S_L S)) (unat n) x;
             xd = (the (S_x S))\<lparr>D_ncol := unat n, D_nzmax := nrow, D_x := None\<rparr>
         in Inr (S\<lparr>S_b := Some b, S_x := Some xd\<rparr>,
                 take (unat n * nrow) sol @ drop (unat n * nrow) x, [Call_cholmod_solve2]))
      else
        (let ld = the (S_W S);
             step = (\<lambda>i (t, y).
                (let sol = umfpack_wsolve env (the (S_numeric S)) (drop (i * ld) y)
                 in (take ld sol @ drop ld t,
                     take (i * ld) y @ take ld sol @ drop (i * ld + ld) y)));
             (t, y) = fold step [0 ..< unat n] (the (S_tmp S), x)
         in if n \<noteq> 0 \<and> 2 ^ 31 \<le> (unat n - 1) * ld then Inl Int_overflow
            else Inr (S\<lparr>S_tmp := Some t\<rparr>, y, replicate (unat n) Call_umfpack_wsolve)))"

text \<open>
  Lines 426 to 438, \<open>solve(const K* b, K* x)\<close>: the solution is written to \<open>x\<close>
  directly.
\<close>

definition solve_b :: "'k suitesparse_env \<Rightarrow> 'k SuiteSparseSub \<Rightarrow> 'k list \<Rightarrow> 'k list \<Rightarrow>
    'k SuiteSparseSub \<times> 'k list \<times> lib_call list" where
  "solve_b env S b x =
     (if S_c S \<noteq> None then
        (let nrow = D_nrow (the (S_x S));
             bd = (the (S_b S))\<lparr>D_ncol := 1, D_nzmax := nrow, D_x := Some b\<rparr>;
             sol = cholmod_solve2 env (the (S_L S)) 1 b;
             y = take nrow sol @ drop nrow x;
             xd = (the (S_x S))\<lparr>D_ncol := 1, D_nzmax := nrow, D_x := Some y\<rparr>
         in (S\<lparr>S_b := Some bd, S_x := Some xd\<rparr>, y, [Call_cholmod_solve2]))
      else
        (let sol = umfpack_wsolve env (the (S_numeric S)) b;
             ld = the (S_W S)
         in (S, take ld sol @ drop ld x, [Call_umfpack_wsolve])))"

text \<open>
  The objects a caller can hold after \<open>numfact\<close> has returned \<open>S\<close>: \<open>S\<close> itself, and
  the object that any of the three \<open>solve\<close> overloads leaves behind when it is called
  on such an object and returns.
\<close>

inductive after_solves :: "'k suitesparse_env \<Rightarrow> 'k SuiteSparseSub \<Rightarrow> 'k SuiteSparseSub \<Rightarrow> bool"
  for env :: "'k suitesparse_env" and S :: "'k SuiteSparseSub" where
  after_none: "after_solves env S S"
| after_solve: "after_solves env S S1 \<Longrightarrow> after_solves env S (fst (solve env S1 x))"
| after_solve_n: "after_solves env S S1 \<Longrightarrow> solve_n env S1 x n = Inr r \<Longrightarrow>
    after_solves env S (fst r)"
| after_solve_b: "after_solves env S S1 \<Longrightarrow> after_solves env S (fst (solve_b env S1 b x))"

subsection \<open>A concrete direct-solver setting\<close>

text \<open>
  A complex instance: \<open>HPDDM_EPS\<close> is \<open>1e-12\<close>, \<open>std::sort\<close> is a stable sort, the two
  libraries' solve routines are stubs. \<open>example_A\<close> is the symmetric storage of the 3
  by 3 matrix with rows \<open>(4, 1, 0)\<close>, \<open>(1, 3, 2)\<close>, \<open>(0, 2, 5)\<close>, the zero of position
  (2, 0) stored. \<open>empty_A\<close> is a symmetric matrix with no row.
\<close>

definition example_env :: "complex suitesparse_env" where
  "example_env =
     \<lparr>HPDDM_EPS = 1 / 10 ^ 12, std_abs = cmod, std_sort = sort_key fst, UMFPACK_PRL = 0,
      UMFPACK_IRSTEP = 7, umfpack_defaults = replicate 20 1, new_array = (\<lambda>n. replicate n 0),
      cholmod_solve2 = (\<lambda>L n x. x), umfpack_wsolve = (\<lambda>N x. x)\<rparr>"

definition example_A :: "complex MatrixCSR" where
  "example_A =
     \<lparr>A_sym = True, A_m = 3, A_n = 3, A_nnz = 6, A_ia = [0, 1, 3, 6],
      A_ja = [0, 0, 1, 0, 1, 2], A_a = [4, 1, 3, 0, 2, 5]\<rparr>"


section \<open>Scalars, arrays and the dense kernels\<close>

text \<open>
  The solvers are templates over the scalar type \<open>K\<close>, and their arithmetic is
  floating point. The model takes the arithmetic as a parameter: a record of the
  operations on a type \<open>'k\<close> that holds both \<open>K\<close> and \<open>underlying_type<K>\<close>
  (\<open>f_real\<close> is \<open>std::real\<close>, \<open>f_conj\<close> is \<open>Wrapper<K>::conj\<close>, \<open>f_le\<close> is \<open><=\<close>). A
  theorem stated for every such record holds whatever the rounding is.
\<close>

record 'k arith =
  f_zero :: 'k
  f_one :: 'k
  f_add :: "'k \<Rightarrow> 'k \<Rightarrow> 'k"
  f_mul :: "'k \<Rightarrow> 'k \<Rightarrow> 'k"
  f_div :: "'k \<Rightarrow> 'k \<Rightarrow> 'k"
  f_neg :: "'k \<Rightarrow> 'k"
  f_sqrt :: "'k \<Rightarrow> 'k"
  f_real :: "'k \<Rightarrow> 'k"
  f_conj :: "'k \<Rightarrow> 'k"
  f_le :: "'k \<Rightarrow> 'k \<Rightarrow> bool"

text \<open>
  An array is the memory a pointer gives access to: a function from the index to the
  element. Pointer arithmetic is index arithmetic, and two pointers into one
  allocation are two offsets into one array, so that the aliasing of the workspaces is
  the source's. \<open>rd\<close> reads \<open>n\<close> elements from an offset, \<open>wr\<close> stores a list at an
  offset. \<open>std::copy_n\<close>, \<open>std::copy\<close> to a lower address and \<open>std::copy_backward\<close> to
  a higher one are \<open>wr\<close> of \<open>rd\<close>.
\<close>

type_synonym 'k array = "nat \<Rightarrow> 'k"

definition rd :: "'k array \<Rightarrow> nat \<Rightarrow> nat \<Rightarrow> 'k list" where
  "rd a off n = map (\<lambda>j. a (off + j)) [0 ..< n]"

definition wr :: "'k array \<Rightarrow> nat \<Rightarrow> 'k list \<Rightarrow> 'k array" where
  "wr a off xs = (\<lambda>k. if off \<le> k \<and> k < off + length xs then xs ! (k - off) else a k)"

text \<open>
  Modelled from the spec: \<open>Blas<K>\<close> and \<open>Wrapper<K>\<close>, the dense-kernel adapter ("thin
  uniform calling convention over scalar dot-product, axpy/axpby, general/triangular
  matrix-vector and matrix-matrix products"), are not in the sources. \<open>dot\<close>, \<open>axpy\<close>,
  \<open>axpby\<close> and \<open>gemv\<close> are the reference BLAS loops with unit strides (\<open>dot\<close> conjugates
  its first argument; \<open>axpy\<close> returns at once when \<open>n\<close> or \<open>alpha\<close> is zero), \<open>diag\<close>
  scales each of the \<open>mu\<close> columns by the vector \<open>d\<close> and copies when \<open>d\<close> is null, and
  the constants \<open>d__0\<close>, \<open>d__1\<close>, \<open>d__2\<close> are 0, 1 and -1.
\<close>

definition dot :: "('k, 'z) arith_scheme \<Rightarrow> nat \<Rightarrow> 'k list \<Rightarrow> 'k list \<Rightarrow> 'k" where
  "dot ar n x y =
     fold (\<lambda>j acc. f_add ar acc (f_mul ar (f_conj ar (x ! j)) (y ! j))) [0 ..< n] (f_zero ar)"

definition axpy :: "('k, 'z) arith_scheme \<Rightarrow> nat \<Rightarrow> 'k \<Rightarrow> 'k list \<Rightarrow> 'k list \<Rightarrow> 'k list" where
  "axpy ar n alpha x y =
     (if n = 0 \<or> alpha = f_zero ar then y
      else map (\<lambda>j. f_add ar (y ! j) (f_mul ar alpha (x ! j))) [0 ..< n] @ drop n y)"

definition axpby :: "('k, 'z) arith_scheme \<Rightarrow> nat \<Rightarrow> 'k \<Rightarrow> 'k list \<Rightarrow> 'k \<Rightarrow> 'k list \<Rightarrow> 'k list" where
  "axpby ar n alpha x beta y =
     map (\<lambda>j. f_add ar (f_mul ar alpha (x ! j)) (f_mul ar beta (y ! j))) [0 ..< n] @ drop n y"

definition diag :: "('k, 'z) arith_scheme \<Rightarrow> nat \<Rightarrow> 'k array option \<Rightarrow> 'k list \<Rightarrow> nat \<Rightarrow> 'k list" where
  "diag ar n d inp mu =
     map (\<lambda>k. case d of None \<Rightarrow> inp ! k | Some dv \<Rightarrow> f_mul ar (dv (k mod n)) (inp ! k))
       [0 ..< n * mu]"

definition d__0 :: "('k, 'z) arith_scheme \<Rightarrow> 'k" where
  "d__0 ar = f_zero ar"

definition d__1 :: "('k, 'z) arith_scheme \<Rightarrow> 'k" where
  "d__1 ar = f_one ar"

definition d__2 :: "('k, 'z) arith_scheme \<Rightarrow> 'k" where
  "d__2 ar = f_neg ar (f_one ar)"

text \<open>
  \<open>gemv("N", m, n, alpha, a, lda, x, 1, beta, y, 1)\<close> on one array \<open>w\<close> that holds the
  matrix at \<open>aoff\<close>, the vector \<open>x\<close> at \<open>xoff\<close> and \<open>y\<close> at \<open>yoff\<close>: \<open>y\<close> is scaled by
  \<open>beta\<close> unless \<open>beta\<close> is one, then column \<open>k\<close> times \<open>alpha * x[k]\<close> is added for each
  \<open>k\<close>.
\<close>

definition gemv_N :: "('k, 'z) arith_scheme \<Rightarrow> nat \<Rightarrow> nat \<Rightarrow> 'k \<Rightarrow> 'k array \<Rightarrow> nat \<Rightarrow> nat \<Rightarrow> nat \<Rightarrow>
    'k \<Rightarrow> nat \<Rightarrow> 'k array" where
  "gemv_N ar m n alpha w aoff lda xoff beta yoff =
     (let y0 = (if beta = f_one ar then rd w yoff m else map (f_mul ar beta) (rd w yoff m));
          y1 = fold (\<lambda>k y. map (\<lambda>j. f_add ar (y ! j)
                                  (f_mul ar (f_mul ar alpha (w (xoff + k))) (w (aoff + j + k * lda))))
                        [0 ..< m])
                 [0 ..< n] y0
      in wr w yoff y1)"

section \<open>Collective reductions, events and results\<close>

datatype mpi_datatype = mpi_type | mpi_underlying_type

text \<open>
  What a solver does besides computing: the collective reductions it takes part in
  (element count, datatype, and the values this rank contributes), the arrays it
  frees, the end of the operator's scope, the status a dense factorization or solve
  returned, and the calls of the reporting helpers.
\<close>

datatype 'k event =
    Allreduce nat mpi_datatype "'k list"
  | Delete string
  | Operator_end bool
  | Info string int
  | Report string int nat nat
  | Compute_dot bool

text \<open>
  \<open>MPI_Allreduce(MPI_IN_PLACE, buf + off, count, dt, MPI_SUM, comm)\<close>. The other ranks
  are the parameter \<open>remote\<close>: \<open>remote k j\<close> is the sum of what they contribute to
  element \<open>j\<close> of the \<open>k\<close>-th reduction of the run. The reduction adds it to the local
  value, records the call and advances the count of reductions.
\<close>

definition MPI_Allreduce :: "('k, 'z) arith_scheme \<Rightarrow> (nat \<Rightarrow> nat \<Rightarrow> 'k) \<Rightarrow> 'k array \<Rightarrow> nat \<Rightarrow> nat \<Rightarrow>
    mpi_datatype \<Rightarrow> nat \<times> 'k event list \<Rightarrow> 'k array \<times> nat \<times> 'k event list" where
  "MPI_Allreduce ar remote buf off cnt dt c =
     (case c of (k, evs) \<Rightarrow>
        (let payload = rd buf off cnt
         in (wr buf off (map (\<lambda>j. f_add ar (payload ! j) (remote k j)) [0 ..< cnt]),
             Suc k, evs @ [Allreduce cnt dt payload])))"

text \<open>
  What a solver returns: the \<open>int\<close> result, the contents of \<open>x\<close>, and the events of the
  run. \<open>executed\<close> is not a value of the program: it counts how many times the body of
  the solver's own iteration loop was entered.
\<close>

record 'k outcome =
  ret :: int
  sol :: "'k array"
  events :: "'k event list"
  executed :: nat

section \<open>The operator and the configuration\<close>

text \<open>
  The operator contract CG and BCG use. The operator is the caller's; each callback is
  a function of its arguments. \<open>A_start\<close> returns the flag that \<open>end\<close> is given back and
  the contents of \<open>x\<close> (which it takes by non-const pointer); \<open>A_GMV\<close> maps \<open>mu\<close> columns
  to \<open>mu\<close> columns; \<open>A_apply\<close> returns the output and what it left in its work array.
  \<open>GMV\<close> and \<open>apply\<close> exchange values with the neighbouring ranks, so what they return
  may change from one call to the next: their first argument is the number of
  reductions made so far, which differs between any two calls of one callback.
\<close>

record 'k operator =
  A_prefix :: string
  A_getDof :: nat
  A_getScaling :: "'k array option"
  A_start :: "bool \<Rightarrow> 'k array \<Rightarrow> 'k array \<Rightarrow> nat \<Rightarrow> bool \<times> 'k array"
  A_GMV :: "nat \<Rightarrow> 'k list \<Rightarrow> nat \<Rightarrow> 'k list"
  A_apply :: "nat \<Rightarrow> bool \<Rightarrow> 'k list \<Rightarrow> nat \<Rightarrow> 'k list \<Rightarrow> 'k list \<times> 'k list"

text \<open>
  What the solvers take from outside the three files:
  \<^item> the option singleton \<open>*Option::get()\<close>, as its two member functions: \<open>any_of\<close>,
    given the name of an option and a list of values, and \<open>val\<close>, given the name of
    an option and a default, which returns the value before it is converted to the
    type the caller asks for;
  \<^item> \<open>options N prefix\<close>, which returns the tolerance, the iteration cap (an
    \<open>unsigned short\<close>) and the two characters \<open>id[0]\<close>, \<open>id[1]\<close> (for PCG the one
    character \<open>verbosity\<close>, as \<open>id[0]\<close>);
  \<^item> \<open>heap\<close>, the contents of a freshly allocated array;
  \<^item> \<open>remote\<close>, the other ranks' contributions to the reductions;
  \<^item> \<open>GMRES\<close>, declared in iterative.hpp and defined elsewhere;
  \<^item> \<open>checkConvergence\<close>, which returns the new \<open>hasConverged\<close>, and
    \<open>checkBlockConvergence\<close>, which returns a count of converged columns and what it
    left in its work array;
  \<^item> \<open>QR\<close>, which returns its status and the new contents of the block, of the
    triangular factor and of its work array (its first argument is the number of
    reductions made so far, as for the operator's callbacks);
  \<^item> the BLAS 3 and LAPACK routines BCG calls, each a function from the arrays it reads
    to the array it writes (\<open>ppsv\<close> and \<open>posv\<close> also return \<open>info\<close>);
  \<^item> \<open>nrm2\<close>.
\<close>

record 'k env = "'k arith" +
  any_of :: "string \<Rightarrow> int list \<Rightarrow> bool"
  val :: "string \<Rightarrow> int \<Rightarrow> int"
  options :: "nat \<Rightarrow> string \<Rightarrow> 'k \<times> 16 word \<times> int \<times> int"
  heap :: "'k array"
  remote :: "nat \<Rightarrow> nat \<Rightarrow> 'k"
  GMRES :: "bool \<Rightarrow> 'k operator \<Rightarrow> 'k array \<Rightarrow> 'k array \<Rightarrow> nat \<Rightarrow> failure + 'k outcome"
  checkConvergence :: "nat \<Rightarrow> int \<Rightarrow> nat \<Rightarrow> nat \<Rightarrow> 'k \<Rightarrow> nat \<Rightarrow> 'k list \<Rightarrow> 'k list \<Rightarrow>
                       (nat \<Rightarrow> int) \<Rightarrow> 16 word \<Rightarrow> (nat \<Rightarrow> int)"
  checkBlockConvergence :: "nat \<Rightarrow> int \<Rightarrow> 16 word \<Rightarrow> 'k \<Rightarrow> nat \<Rightarrow> nat \<Rightarrow> 'k list \<Rightarrow> 'k list \<Rightarrow>
                            nat \<Rightarrow> 'k list \<Rightarrow> 16 word \<Rightarrow> int \<times> 'k list"
  QR :: "nat \<Rightarrow> bool \<Rightarrow> int \<Rightarrow> nat \<Rightarrow> nat \<Rightarrow> 'k list \<Rightarrow> 'k list \<Rightarrow> 'k array option \<Rightarrow> 'k list \<Rightarrow>
         int \<times> 'k list \<times> 'k list \<times> 'k list"
  gemmt :: "nat \<Rightarrow> nat \<Rightarrow> 'k list \<Rightarrow> 'k list \<Rightarrow> 'k list \<Rightarrow> 'k list"
  trsm :: "nat \<Rightarrow> 'k list \<Rightarrow> 'k list \<Rightarrow> 'k list"
  trmm :: "nat \<Rightarrow> 'k list \<Rightarrow> 'k list \<Rightarrow> 'k list"
  gemm :: "nat \<Rightarrow> nat \<Rightarrow> 'k \<Rightarrow> 'k list \<Rightarrow> 'k list \<Rightarrow> 'k list \<Rightarrow> 'k list"
  ppsv :: "nat \<Rightarrow> 'k list \<Rightarrow> 'k list \<Rightarrow> int \<times> 'k list \<times> 'k list"
  posv :: "nat \<Rightarrow> 'k list \<Rightarrow> 'k list \<Rightarrow> int \<times> 'k list \<times> 'k list"
  nrm2 :: "nat \<Rightarrow> 'k list \<Rightarrow> 'k"

text \<open>The test that sends CG and BCG to GMRES (CG.hpp, lines 38 and 154).\<close>

definition redirected :: "'k env \<Rightarrow> 'k operator \<Rightarrow> bool" where
  "redirected env A \<longleftrightarrow>
     any_of env (A_prefix A @ ''schwarz_method'') [0, 1, 4]
     \<or> any_of env (A_prefix A @ ''schwarz_coarse_correction'') [0]"

text \<open>The conversion of an \<open>int\<close> to \<open>short\<close>, and the value \<open>-it\<close> of an
  \<open>unsigned short it\<close> (an \<open>int\<close>, after the integral promotion).\<close>

definition to_short :: "int \<Rightarrow> int" where
  "to_short v = sint (word_of_int v :: 16 word)"

definition minus_it :: "16 word \<Rightarrow> int" where
  "minus_it it = - uint it"

text \<open>
  An array given by its first elements and the value of all the others; the concrete
  runs below are written with it.
\<close>

definition array_of :: "'k \<Rightarrow> 'k list \<Rightarrow> 'k array" where
  "array_of dflt xs = (\<lambda>k. if k < length xs then xs ! k else dflt)"


section \<open>\<open>IterativeMethod::CG\<close> (src/include/CG.hpp, lines 30 to 145)\<close>

text \<open>
  The values fixed before the loop: the template argument \<open>excluded\<close>, the operator,
  \<open>n\<close>, \<open>mu\<close>, the cap \<open>it\<close>, the tolerance and the two characters of \<open>id\<close>. \<open>mu\<close> and
  \<open>n\<close> are sizes: natural numbers.
\<close>

record 'k cg_ctx =
  c_excluded :: bool
  c_A :: "'k operator"
  c_n :: nat
  c_mu :: nat
  c_it :: "16 word"
  c_tol :: 'k
  c_id0 :: int
  c_id1 :: int

text \<open>
  The memory the loop works on. \<open>cg_w\<close> is the allocation \<open>trash\<close> points to: with
  \<open>dim = n * mu\<close>, \<open>trash\<close> is at offset 0, \<open>z\<close> at \<open>dim\<close>, \<open>r\<close> at \<open>2 * dim\<close>, \<open>p\<close> at
  \<open>3 * dim\<close> (lines 50 to 52). \<open>cg_rd\<close> is the allocation \<open>res\<close> points to, with \<open>dir\<close> at
  offset \<open>mu\<close> (line 49); the two allocations are kept apart, as \<open>allocate\<close> does for a
  complex \<open>K\<close>. \<open>cg_hc\<close> is \<open>hasConverged\<close>, \<open>cg_c\<close> the count of reductions and the
  events so far.
\<close>

record 'k cg_state =
  cg_x :: "'k array"
  cg_w :: "'k array"
  cg_rd :: "'k array"
  cg_hc :: "nat \<Rightarrow> int"
  cg_c :: "nat \<times> 'k event list"

definition c_dim :: "'k cg_ctx \<Rightarrow> nat" where
  "c_dim c = c_n c * c_mu c"

definition o_z :: "'k cg_ctx \<Rightarrow> nat" where
  "o_z c = c_dim c"

definition o_r :: "'k cg_ctx \<Rightarrow> nat" where
  "o_r c = 2 * c_dim c"

definition o_p :: "'k cg_ctx \<Rightarrow> nat" where
  "o_p c = 3 * c_dim c"

text \<open>\<open>dir[k]\<close> is element \<open>mu + k\<close> of the allocation of \<open>res\<close>.\<close>

definition o_dir :: "'k cg_ctx \<Rightarrow> nat \<Rightarrow> nat" where
  "o_dir c k = c_mu c + k"

text \<open>A reduction over \<open>dir + off\<close>.\<close>

definition cg_allreduce :: "'k env \<Rightarrow> 'k cg_ctx \<Rightarrow> nat \<Rightarrow> nat \<Rightarrow> 'k cg_state \<Rightarrow> 'k cg_state" where
  "cg_allreduce env c off cnt s =
     (case MPI_Allreduce env (remote env) (cg_rd s) (o_dir c off) cnt mpi_underlying_type (cg_c s)
      of (a, c') \<Rightarrow> s\<lparr>cg_rd := a, cg_c := c'\<rparr>)"

text \<open>Lines 70 and 71: \<open>dir[nu] = real(dot(r, trash))\<close>.\<close>

definition cg_dot_r_trash :: "'k env \<Rightarrow> 'k cg_ctx \<Rightarrow> 'k cg_state \<Rightarrow> 'k cg_state" where
  "cg_dot_r_trash env c s =
     s\<lparr>cg_rd := fold (\<lambda>nu a. a(o_dir c nu :=
           f_real env (dot env (c_n c) (rd (cg_w s) (o_r c + c_n c * nu) (c_n c))
                                       (rd (cg_w s) (c_n c * nu) (c_n c)))))
         [0 ..< c_mu c] (cg_rd s)\<rparr>"

text \<open>
  Lines 73 to 75 and 90 to 92: the coefficients against the stored directions. \<open>base\<close>
  is \<open>1 + it\<close> in the first loop (the stored \<open>z\<close>) and 1 in the second (the stored \<open>p\<close>).
\<close>

definition cg_coefficients :: "'k env \<Rightarrow> 'k cg_ctx \<Rightarrow> nat \<Rightarrow> nat \<Rightarrow> 'k cg_state \<Rightarrow> 'k cg_state" where
  "cg_coefficients env c i base s =
     s\<lparr>cg_rd := fold (\<lambda>k. fold (\<lambda>nu a. a(o_dir c (c_mu c + k * c_mu c + nu) :=
           f_div env
             (f_neg env (f_real env (dot env (c_n c)
                (rd (cg_w s) (c_n c * nu) (c_n c))
                (rd (cg_w s) (o_p c + (base + k) * c_dim c + c_n c * nu) (c_n c)))))
             (a (o_dir c (c_mu c + (unat (c_it c) + k) * c_mu c + nu)))))
           [0 ..< c_mu c])
         [0 ..< i] (cg_rd s)\<rparr>"

text \<open>
  Lines 79 to 83 and 96 to 100: for each column, the coefficients are copied to
  \<open>trash[0 .. i - 1]\<close> and \<open>gemv\<close> adds the stored directions to \<open>p\<close>.
\<close>

definition cg_gemv :: "'k env \<Rightarrow> 'k cg_ctx \<Rightarrow> nat \<Rightarrow> 'k cg_state \<Rightarrow> 'k cg_state" where
  "cg_gemv env c i s =
     s\<lparr>cg_w := fold (\<lambda>nu w.
           (let w1 = fold (\<lambda>k w. w(k := cg_rd s (o_dir c (c_mu c + k * c_mu c + nu)))) [0 ..< i] w
            in gemv_N env (c_n c) i (d__1 env) w1 (o_p c + c_dim c + c_n c * nu) (c_dim c) 0
                 (d__1 env) (o_p c + nu * c_n c)))
         [0 ..< c_mu c] (cg_w s)\<rparr>"

text \<open>\<open>A.GMV(p, z, mu)\<close>.\<close>

definition cg_GMV_p_z :: "'k cg_ctx \<Rightarrow> 'k cg_state \<Rightarrow> 'k cg_state" where
  "cg_GMV_p_z c s =
     s\<lparr>cg_w := wr (cg_w s) (o_z c)
        (A_GMV (c_A c) (fst (cg_c s)) (rd (cg_w s) (o_p c) (c_dim c)) (c_mu c))\<rparr>"

text \<open>\<open>Wrapper<K>::diag(n, d, src, trash, mu)\<close> for \<open>src\<close> at the offset \<open>off\<close>.\<close>

definition cg_diag :: "'k env \<Rightarrow> 'k cg_ctx \<Rightarrow> nat \<Rightarrow> 'k cg_state \<Rightarrow> 'k cg_state" where
  "cg_diag env c off s =
     s\<lparr>cg_w := wr (cg_w s) 0
        (diag env (c_n c) (A_getScaling (c_A c)) (rd (cg_w s) off (c_dim c)) (c_mu c))\<rparr>"

text \<open>Lines 72 to 85: the variant 2 correction (after at least one iteration).\<close>

definition cg_variant2 :: "'k env \<Rightarrow> 'k cg_ctx \<Rightarrow> nat \<Rightarrow> 'k cg_state \<Rightarrow> 'k cg_state" where
  "cg_variant2 env c i s =
     (if c_id1 c = 2 \<and> i \<noteq> 0 then
        (let s1 = cg_coefficients env c i (1 + unat (c_it c)) s;
             s2 = cg_allreduce env c (c_mu c) (i * c_mu c) s1
         in if \<not> c_excluded c \<and> c_n c \<noteq> 0 then
              cg_gemv env c i (s2\<lparr>cg_w := wr (cg_w s2) (o_p c) (rd (cg_w s2) (o_z c) (c_dim c))\<rparr>)
            else s2)
      else s)"

text \<open>Lines 88 to 103: the orthogonalisation against the stored directions.\<close>

definition cg_orthogonalise :: "'k env \<Rightarrow> 'k cg_ctx \<Rightarrow> nat \<Rightarrow> 'k cg_state \<Rightarrow> 'k cg_state" where
  "cg_orthogonalise env c i s =
     (if i \<noteq> 0 then
        (let s1 = cg_diag env c (o_z c) s;
             s2 = cg_coefficients env c i 1 s1;
             s3 = cg_allreduce env c (c_mu c) (i * c_mu c) s2
         in if \<not> c_excluded c then
              cg_GMV_p_z c (if c_n c \<noteq> 0 then cg_gemv env c i s3 else s3)
            else s3)
      else s)"

text \<open>Lines 105 and 106: \<open>dir[mu + nu] = real(dot(z, trash))\<close>.\<close>

definition cg_dot_z_trash :: "'k env \<Rightarrow> 'k cg_ctx \<Rightarrow> 'k cg_state \<Rightarrow> 'k cg_state" where
  "cg_dot_z_trash env c s =
     s\<lparr>cg_rd := fold (\<lambda>nu a. a(o_dir c (c_mu c + nu) :=
           f_real env (dot env (c_n c) (rd (cg_w s) (o_z c + c_n c * nu) (c_n c))
                                       (rd (cg_w s) (c_n c * nu) (c_n c)))))
         [0 ..< c_mu c] (cg_rd s)\<rparr>"

text \<open>
  Lines 109 to 112, with \<open>i\<close> already incremented: the new \<open>dir[mu ..]\<close>, \<open>p\<close> and (in
  variant 2) \<open>z\<close> are stored in the history.
\<close>

definition cg_store :: "'k cg_ctx \<Rightarrow> nat \<Rightarrow> 'k cg_state \<Rightarrow> 'k cg_state" where
  "cg_store c i s =
     (let a = wr (cg_rd s) (o_dir c ((unat (c_it c) + i) * c_mu c))
                (rd (cg_rd s) (o_dir c (c_mu c)) (c_mu c));
          w1 = wr (cg_w s) (o_p c + i * c_dim c) (rd (cg_w s) (o_p c) (c_dim c));
          w2 = (if c_id1 c = 2
                then wr w1 (o_p c + (unat (c_it c) + i) * c_dim c) (rd w1 (o_z c) (c_dim c))
                else w1)
      in s\<lparr>cg_rd := a, cg_w := w2\<rparr>)"

text \<open>
  Lines 113 to 120: the update of \<open>x\<close> and \<open>r\<close> for every column whose entry of
  \<open>hasConverged\<close> equals \<open>-it\<close>. The step length is written to \<open>trash[nu]\<close>.
\<close>

definition cg_update_column :: "'k env \<Rightarrow> 'k cg_ctx \<Rightarrow> nat \<Rightarrow> 'k cg_state \<Rightarrow> 'k cg_state" where
  "cg_update_column env c nu s =
     (if cg_hc s nu = minus_it (c_it c) then
        (let n = c_n c;
             w1 = (cg_w s)(nu := f_div env (cg_rd s (o_dir c nu)) (cg_rd s (o_dir c (c_mu c + nu))));
             x1 = wr (cg_x s) (n * nu)
                    (axpy env n (w1 nu) (rd w1 (o_p c + n * nu) n) (rd (cg_x s) (n * nu) n));
             w2 = w1(nu := f_neg env (w1 nu));
             w3 = wr w2 (o_r c + n * nu)
                    (axpy env n (w2 nu) (rd w2 (o_z c + n * nu) n) (rd w2 (o_r c + n * nu) n))
         in s\<lparr>cg_x := x1, cg_w := w3\<rparr>)
      else s)"

definition cg_update :: "'k env \<Rightarrow> 'k cg_ctx \<Rightarrow> 'k cg_state \<Rightarrow> 'k cg_state" where
  "cg_update env c s = fold (cg_update_column env c) [0 ..< c_mu c] s"

text \<open>Line 121: \<open>A.apply<excluded>(r, z, mu, trash)\<close>.\<close>

definition cg_apply_r_z :: "'k cg_ctx \<Rightarrow> 'k cg_state \<Rightarrow> 'k cg_state" where
  "cg_apply_r_z c s =
     (case A_apply (c_A c) (fst (cg_c s)) (c_excluded c) (rd (cg_w s) (o_r c) (c_dim c)) (c_mu c)
             (rd (cg_w s) 0 (c_dim c))
      of (out, work) \<Rightarrow> s\<lparr>cg_w := wr (wr (cg_w s) 0 work) (o_z c) out\<rparr>)"

text \<open>Lines 123 to 126.\<close>

definition cg_dots :: "'k env \<Rightarrow> 'k cg_ctx \<Rightarrow> 'k cg_state \<Rightarrow> 'k cg_state" where
  "cg_dots env c s =
     s\<lparr>cg_rd := fold (\<lambda>nu a.
           (let a1 = a(o_dir c (c_mu c + nu) :=
                  f_div env
                    (f_real env (dot env (c_n c) (rd (cg_w s) (o_r c + c_n c * nu) (c_n c))
                                                (rd (cg_w s) (c_n c * nu) (c_n c))))
                    (a (o_dir c nu)))
            in a1(o_dir c nu :=
                  f_real env (dot env (c_n c) (rd (cg_w s) (o_z c + c_n c * nu) (c_n c))
                                              (rd (cg_w s) (c_n c * nu) (c_n c))))))
         [0 ..< c_mu c] (cg_rd s)\<rparr>"

text \<open>Lines 128 to 130: the new direction \<open>p = z + dir[mu + nu] * p\<close>, unless variant 2.\<close>

definition cg_direction :: "'k env \<Rightarrow> 'k cg_ctx \<Rightarrow> 'k cg_state \<Rightarrow> 'k cg_state" where
  "cg_direction env c s =
     (if c_id1 c \<noteq> 2 then
        s\<lparr>cg_w := fold (\<lambda>nu w. wr w (o_p c + c_n c * nu)
              (axpby env (c_n c) (f_one env) (rd w (o_z c + c_n c * nu) (c_n c))
                 (cg_rd s (o_dir c (c_mu c + nu))) (rd w (o_p c + c_n c * nu) (c_n c))))
            [0 ..< c_mu c] (cg_w s)\<rparr>
      else s)"

text \<open>Lines 131 and 132: the square roots, then \<open>checkConvergence<2>\<close>.\<close>

definition cg_check :: "'k env \<Rightarrow> 'k cg_ctx \<Rightarrow> nat \<Rightarrow> 'k cg_state \<Rightarrow> 'k cg_state" where
  "cg_check env c i s =
     (let a = wr (cg_rd s) (o_dir c 0) (map (f_sqrt env) (rd (cg_rd s) (o_dir c 0) (c_mu c)))
      in s\<lparr>cg_rd := a,
           cg_hc := checkConvergence env 2 (c_id0 c) i i (c_tol c) (c_mu c) (rd a 0 (c_mu c))
                      (rd a (o_dir c 0) (c_mu c)) (cg_hc s) (c_it c)\<rparr>)"

text \<open>
  Lines 70 to 132: one execution of the body of the loop, entered with the counter
  \<open>i\<close>; the counter is \<open>i + 1\<close> from line 108 on.
\<close>

definition CG_body :: "'k env \<Rightarrow> 'k cg_ctx \<Rightarrow> nat \<Rightarrow> 'k cg_state \<Rightarrow> 'k cg_state" where
  "CG_body env c i s =
     (let s1 = cg_dot_r_trash env c s;
          s2 = cg_variant2 env c i s1;
          s3 = (if \<not> c_excluded c then cg_GMV_p_z c s2 else s2);
          s4 = cg_orthogonalise env c i s3;
          s5 = cg_diag env c (o_p c) s4;
          s6 = cg_dot_z_trash env c s5;
          s7 = cg_allreduce env c 0 (2 * c_mu c) s6;
          s8 = cg_store c (i + 1) s7;
          s9 = cg_update env c s8;
          s10 = cg_apply_r_z c s9;
          s11 = cg_diag env c (o_z c) s10;
          s12 = cg_dots env c s11;
          s13 = cg_allreduce env c 0 (2 * c_mu c) s12;
          s14 = cg_direction env c s13
      in cg_check env c (i + 1) s14)"

text \<open>Line 133: \<open>std::find(hasConverged, hasConverged + mu, -it) == hasConverged + mu\<close>.\<close>

definition all_converged :: "'k cg_ctx \<Rightarrow> 'k cg_state \<Rightarrow> bool" where
  "all_converged c s \<longleftrightarrow> (\<forall>nu\<in>{0..<c_mu c}. cg_hc s nu \<noteq> minus_it (c_it c))"

text \<open>
  Lines 68 to 137: the loop. The result is the final value of \<open>i\<close>, the number of times
  the body was entered, and the state. \<open>e\<close> counts the executions of the body.
\<close>

function CG_loop :: "'k env \<Rightarrow> 'k cg_ctx \<Rightarrow> nat \<Rightarrow> nat \<Rightarrow> 'k cg_state \<Rightarrow> nat \<times> nat \<times> 'k cg_state" where
  "CG_loop env c i e s =
     (if i < unat (c_it c) then
        (let s' = CG_body env c i s
         in if all_converged c s' then (i + 1 - 1, e + 1, s')
            else CG_loop env c (i + 1) (e + 1) s')
      else (i, e, s))"
  by pat_completeness auto
termination
  by (relation "measure (\<lambda>(env, c, i, e, s). unat (c_it c) - i)") auto

declare CG_loop.simps [simp del]

text \<open>
  Lines 42 to 66: the set-up. \<open>hasConverged\<close> is filled with \<open>-it\<close> converted to
  \<open>short\<close>; the initial residual and the norms \<open>res\<close> are computed.
\<close>

definition CG_init :: "'k env \<Rightarrow> 'k cg_ctx \<Rightarrow> 'k array \<Rightarrow> 'k array \<Rightarrow> 'k cg_state" where
  "CG_init env c b x =
     (let dim = c_dim c;
          w0 = heap env;
          w1 = (if \<not> c_excluded c then wr w0 (o_z c) (A_GMV (c_A c) 0 (rd x 0 dim) (c_mu c)) else w0);
          w2 = wr w1 (o_r c) (rd b 0 dim);
          w3 = wr w2 (o_r c) (axpy env dim (d__2 env) (rd w2 (o_z c) dim) (rd w2 (o_r c) dim));
          w4 = (case A_apply (c_A c) 0 (c_excluded c) (rd w3 (o_r c) dim) (c_mu c) (rd w3 (o_z c) dim)
                of (out, work) \<Rightarrow> wr (wr w3 (o_z c) work) (o_p c) out);
          s0 = \<lparr>cg_x = x, cg_w = w4, cg_rd = heap env,
                cg_hc = (\<lambda>nu. to_short (minus_it (c_it c))), cg_c = (0, [])\<rparr>;
          s1 = cg_diag env c (o_p c) s0;
          s2 = s1\<lparr>cg_rd := fold (\<lambda>nu a. a(o_dir c nu :=
                   f_real env (dot env (c_n c) (rd (cg_w s1) (c_n c * nu) (c_n c))
                                               (rd (cg_w s1) (o_p c + c_n c * nu) (c_n c)))))
                 [0 ..< c_mu c] (cg_rd s1)\<rparr>;
          s3 = cg_allreduce env c 0 (c_mu c) s2
      in s3\<lparr>cg_rd := wr (cg_rd s3) 0 (map (f_sqrt env) (rd (cg_rd s3) (o_dir c 0) (c_mu c)))\<rparr>)"

text \<open>Lines 32 to 43: the values fixed before the loop, as CG computes them.\<close>

definition CG_ctx :: "'k env \<Rightarrow> bool \<Rightarrow> 'k operator \<Rightarrow> nat \<Rightarrow> 'k cg_ctx" where
  "CG_ctx env excluded A mu =
     (case options env 2 (A_prefix A) of (tol, it, id0, id1) \<Rightarrow>
        \<lparr>c_excluded = excluded, c_A = A, c_n = (if excluded then 0 else A_getDof A),
         c_mu = mu, c_it = it, c_tol = tol, c_id0 = id0, c_id1 = id1\<rparr>)"

text \<open>
  Lines 138 to 144, after the loop has ended with the counter \<open>i\<close>:
  \<open>convergence<2>(id[0], i + 1, it)\<close>, the arrays are freed (\<open>trash\<close> only for a complex
  \<open>K\<close>: \<open>Wrapper<K>::is_complex\<close> is the parameter \<open>is_complex\<close>), the operator's scope
  is ended, and \<open>std::min(static_cast<unsigned short>(i), it)\<close> is returned.
\<close>

definition CG_finish :: "bool \<Rightarrow> 'k cg_ctx \<Rightarrow> bool \<Rightarrow> nat \<times> nat \<times> 'k cg_state \<Rightarrow> 'k outcome" where
  "CG_finish is_complex c allocate r =
     (case r of (i, e, s) \<Rightarrow>
        \<lparr>ret = uint (min (word_of_nat i :: 16 word) (c_it c)),
         sol = cg_x s,
         events = snd (cg_c s) @
           [Report ''convergence<2>'' (c_id0 c) (i + 1) (unat (c_it c)), Delete ''res'']
           @ (if is_complex then [Delete ''trash''] else [])
           @ [Delete ''hasConverged'', Operator_end allocate],
         executed = e\<rparr>)"

text \<open>
  Lines 31 to 145. The first loop over \<open>nu\<close> is at line 63: with \<open>mu\<close> above 65535 it
  does not end.
\<close>

definition CG :: "'k env \<Rightarrow> bool \<Rightarrow> bool \<Rightarrow> 'k operator \<Rightarrow> 'k array \<Rightarrow> 'k array \<Rightarrow> nat \<Rightarrow>
    failure + 'k outcome" where
  "CG env is_complex excluded A b x mu =
     (if redirected env A then GMRES env excluded A b x mu
      else if 65536 \<le> mu then Inl Loop_diverges
      else
        (let c = CG_ctx env excluded A mu
         in case A_start A excluded b x mu of (allocate, x0) \<Rightarrow>
              Inr (CG_finish is_complex c allocate (CG_loop env c 0 0 (CG_init env c b x0)))))"


section \<open>\<open>IterativeMethod::BCG\<close> (src/include/CG.hpp, lines 146 to 291)\<close>

text \<open>
  The values fixed before the loop. \<open>m0\<close> and \<open>m1\<close> are \<open>m[0]\<close> (the cap) and \<open>m[1]\<close>
  (the option \<open>enlarge_krylov_subspace\<close>); \<open>b_b\<close> is the right-hand side, which the
  fall-back hands to CG.
\<close>

record 'k bcg_ctx =
  b_excluded :: bool
  b_is_complex :: bool
  b_A :: "'k operator"
  b_b :: "'k array"
  b_n :: nat
  b_mu :: nat
  b_m0 :: "16 word"
  b_m1 :: "16 word"
  b_tol :: 'k
  b_id0 :: int
  b_id1 :: int
  b_allocate :: bool

text \<open>
  \<open>bcg_w\<close> is the allocation \<open>trash\<close> points to (lines 163 to 169): with
  \<open>dim = n * mu\<close>, \<open>trash\<close> is at offset 0, \<open>p\<close> at \<open>dim\<close>, \<open>z\<close> at \<open>2 * dim\<close>, \<open>r\<close> at
  \<open>3 * dim\<close>, \<open>rho\<close> at \<open>4 * dim\<close>, \<open>rhs\<close> at \<open>rho + 2 * mu * mu\<close> and \<open>gamma\<close> at
  \<open>rhs + mu * mu\<close>. \<open>bcg_norm\<close> is the array \<open>norm\<close>.
\<close>

record 'k bcg_state =
  bcg_x :: "'k array"
  bcg_w :: "'k array"
  bcg_norm :: "'k array"
  bcg_c :: "nat \<times> 'k event list"

definition b_dim :: "'k bcg_ctx \<Rightarrow> nat" where
  "b_dim c = b_n c * b_mu c"

definition q_p :: "'k bcg_ctx \<Rightarrow> nat" where
  "q_p c = b_dim c"

definition q_z :: "'k bcg_ctx \<Rightarrow> nat" where
  "q_z c = 2 * b_dim c"

definition q_r :: "'k bcg_ctx \<Rightarrow> nat" where
  "q_r c = 3 * b_dim c"

definition q_rho :: "'k bcg_ctx \<Rightarrow> nat" where
  "q_rho c = 4 * b_dim c"

definition q_rhs :: "'k bcg_ctx \<Rightarrow> nat" where
  "q_rhs c = q_rho c + 2 * b_mu c * b_mu c"

definition q_gamma :: "'k bcg_ctx \<Rightarrow> nat" where
  "q_gamma c = q_rhs c + b_mu c * b_mu c"

text \<open>Lines 180 and 181 (also 217, 218 and 238, 239): the upper triangle of the
  \<open>mu\<close> by \<open>mu\<close> matrix at \<open>off\<close> is packed, column after column.\<close>

definition pack_upper :: "nat \<Rightarrow> nat \<Rightarrow> 'k array \<Rightarrow> 'k array" where
  "pack_upper mu off w =
     fold (\<lambda>nu w. wr w (off + (nu * (nu + 1)) div 2) (rd w (off + nu * mu) (nu + 1))) [1 ..< mu] w"

text \<open>Lines 186 to 190 (also 259 to 263): the packed triangle is unpacked, from the
  last column to the first, and the lower triangle is filled with the conjugates.\<close>

definition unpack_upper :: "('k, 'z) arith_scheme \<Rightarrow> nat \<Rightarrow> nat \<Rightarrow> 'k array \<Rightarrow> 'k array" where
  "unpack_upper ar mu off w =
     (let w1 = fold (\<lambda>nu w. wr w (off + nu * mu - (mu - nu) - nu)
                               (rd w (off + (nu * (nu - 1)) div 2) nu))
                 (rev [1 ..< mu + 1]) w
      in fold (\<lambda>i. fold (\<lambda>j w. w(off + i + j * mu := f_conj ar (w (off + j + i * mu)))) [0 ..< i])
           [0 ..< mu] w1)"

text \<open>
  Lines 178 to 185 (also 215 to 222): the Gram matrix of the block at \<open>src\<close> against
  \<open>trash\<close> is computed by \<open>gemmt\<close> into the matrix at \<open>dst\<close> and packed, or the packed
  triangle is zeroed on a rank without unknowns; then it is summed over the ranks.
\<close>

definition bcg_gram_local :: "'k env \<Rightarrow> 'k bcg_ctx \<Rightarrow> nat \<Rightarrow> nat \<Rightarrow> 'k array \<Rightarrow> 'k array" where
  "bcg_gram_local env c src dst w =
     (if \<not> b_excluded c \<and> b_n c \<noteq> 0 then
        pack_upper (b_mu c) dst
          (wr w dst (gemmt env (b_mu c) (b_n c) (rd w src (b_dim c)) (rd w 0 (b_dim c))
                       (rd w dst (b_mu c * b_mu c))))
      else wr w dst (replicate ((b_mu c * (b_mu c + 1)) div 2) (f_zero env)))"

definition bcg_allreduce :: "'k env \<Rightarrow> nat \<Rightarrow> nat \<Rightarrow> 'k bcg_state \<Rightarrow> 'k bcg_state" where
  "bcg_allreduce env off cnt s =
     (case MPI_Allreduce env (remote env) (bcg_w s) off cnt mpi_underlying_type (bcg_c s)
      of (a, c') \<Rightarrow> s\<lparr>bcg_w := a, bcg_c := c'\<rparr>)"

text \<open>\<open>Wrapper<K>::diag(n, d, src, trash, mu)\<close>.\<close>

definition bcg_diag :: "'k env \<Rightarrow> 'k bcg_ctx \<Rightarrow> nat \<Rightarrow> 'k array \<Rightarrow> 'k array" where
  "bcg_diag env c src w =
     wr w 0 (diag env (b_n c) (A_getScaling (b_A c)) (rd w src (b_dim c)) (b_mu c))"

text \<open>\<open>A.apply<excluded>(src, dst, mu, work)\<close>.\<close>

definition bcg_apply :: "'k bcg_ctx \<Rightarrow> nat \<Rightarrow> nat \<Rightarrow> nat \<Rightarrow> nat \<Rightarrow> 'k array \<Rightarrow> 'k array" where
  "bcg_apply c k src dst work w =
     (case A_apply (b_A c) k (b_excluded c) (rd w src (b_dim c)) (b_mu c) (rd w work (b_dim c))
      of (out, wk) \<Rightarrow> wr (wr w work wk) dst out)"

text \<open>
  Lines 192 and 277: \<open>QR<excluded>(id[1], n, mu, 1, p, gamma, mu, comm, nullptr, true,
  d, trash)\<close>. The status is recorded as an event.
\<close>

definition bcg_QR :: "'k env \<Rightarrow> 'k bcg_ctx \<Rightarrow> 'k bcg_state \<Rightarrow> int \<times> 'k bcg_state" where
  "bcg_QR env c s =
     (case QR env (fst (bcg_c s)) (b_excluded c) (b_id1 c) (b_n c) (b_mu c)
             (rd (bcg_w s) (q_p c) (b_dim c)) (rd (bcg_w s) (q_gamma c) (b_mu c * b_mu c))
             (A_getScaling (b_A c)) (rd (bcg_w s) 0 (b_dim c))
      of (info, p', gamma', trash') \<Rightarrow>
        (info, s\<lparr>bcg_w := wr (wr (wr (bcg_w s) 0 trash') (q_gamma c) gamma') (q_p c) p',
                 bcg_c := (fst (bcg_c s), snd (bcg_c s) @ [Info ''QR'' info])\<rparr>))"

text \<open>
  The fall-back, written out in the source at each of its four places: the arrays are
  freed (\<open>frees\<close> names them), the operator's scope is ended, and the result is that of
  \<open>CG<excluded>(A, b, x, mu, comm)\<close>, on the array \<open>x\<close> as it is at that moment.
  The events of the result are those of BCG so far followed by those of CG.
\<close>

definition BCG_fallback :: "'k env \<Rightarrow> 'k bcg_ctx \<Rightarrow> string list \<Rightarrow> 'k bcg_state \<Rightarrow>
    failure + 'k outcome" where
  "BCG_fallback env c frees s =
     (case CG env (b_is_complex c) (b_excluded c) (b_A c) (b_b c) (bcg_x s) (b_mu c) of
        Inl f \<Rightarrow> Inl f
      | Inr out \<Rightarrow>
          Inr (out\<lparr>events := snd (bcg_c s) @ map Delete frees @ [Operator_end (b_allocate c)]
                               @ events out\<rparr>))"

text \<open>How one execution of the body of the loop ends.\<close>

datatype 'k bcg_step =
    Continue "'k bcg_state"
  | Converged "'k bcg_state"
  | Breakdown "'k bcg_state"
  | Failed failure

text \<open>Lines 210 to 223: up to the packed solve \<open>ppsv\<close>; the result is its \<open>info\<close>.\<close>

definition bcg_ppsv :: "'k env \<Rightarrow> 'k bcg_ctx \<Rightarrow> 'k bcg_state \<Rightarrow> int \<times> 'k bcg_state" where
  "bcg_ppsv env c s =
     (let mu = b_mu c; rho2 = q_rho c + mu * mu;
          w1 = (if \<not> b_excluded c then
                  (let w0 = wr (bcg_w s) (q_z c)
                              (A_GMV (b_A c) (fst (bcg_c s)) (rd (bcg_w s) (q_p c) (b_dim c)) mu)
                   in wr w0 rho2 (trsm env mu (rd w0 (q_gamma c) (mu * mu)) (rd w0 rho2 (mu * mu))))
                else bcg_w s);
          w2 = bcg_diag env c (q_z c) w1;
          w3 = bcg_gram_local env c (q_p c) (q_rhs c) w2;
          s1 = bcg_allreduce env (q_rhs c) ((mu * (mu + 1)) div 2) (s\<lparr>bcg_w := w3\<rparr>)
      in case ppsv env mu (rd (bcg_w s1) (q_rhs c) ((mu * (mu + 1)) div 2))
                (rd (bcg_w s1) rho2 (mu * mu))
         of (info, ap, sl) \<Rightarrow>
           (info, s1\<lparr>bcg_w := wr (wr (bcg_w s1) (q_rhs c) ap) rho2 sl,
                     bcg_c := (fst (bcg_c s1), snd (bcg_c s1) @ [Info ''ppsv'' info])\<rparr>))"

text \<open>Lines 230 to 235: the update of \<open>x\<close> and \<open>r\<close>, the preconditioner, the scaling.\<close>

definition bcg_update :: "'k env \<Rightarrow> 'k bcg_ctx \<Rightarrow> 'k bcg_state \<Rightarrow> 'k bcg_state" where
  "bcg_update env c s =
     (let mu = b_mu c; n = b_n c; dim = b_dim c; rho2 = q_rho c + mu * mu;
          s1 = (if \<not> b_excluded c \<and> n \<noteq> 0 then
                  s\<lparr>bcg_x := wr (bcg_x s) 0
                       (gemm env n mu (d__1 env) (rd (bcg_w s) (q_p c) dim)
                          (rd (bcg_w s) rho2 (mu * mu)) (rd (bcg_x s) 0 dim)),
                    bcg_w := wr (bcg_w s) (q_r c)
                       (gemm env n mu (d__2 env) (rd (bcg_w s) (q_z c) dim)
                          (rd (bcg_w s) rho2 (mu * mu)) (rd (bcg_w s) (q_r c) dim))\<rparr>
                else s);
          w1 = bcg_apply c (fst (bcg_c s1)) (q_r c) (q_z c) 0 (bcg_w s1)
      in s1\<lparr>bcg_w := bcg_diag env c (q_z c) w1\<rparr>)"

text \<open>
  Lines 236 to 253: the Gram matrix of the new residual and the values the
  convergence test reads, or zeros on a rank without unknowns.
\<close>

definition bcg_residual :: "'k env \<Rightarrow> 'k bcg_ctx \<Rightarrow> 'k array \<Rightarrow> 'k array" where
  "bcg_residual env c w =
     (let mu = b_mu c; n = b_n c; m1 = unat (b_m1 c) in
      if \<not> b_excluded c \<and> n \<noteq> 0 then
        (let w1 = bcg_gram_local env c (q_r c) (q_rhs c) w
         in if m1 \<le> 1 then
              fold (\<lambda>nu w. w(q_rho c + (2 * mu - 1) * mu + nu :=
                      f_real env (dot env n (rd w1 (q_z c + n * nu) n) (rd w1 (n * nu) n))))
                [0 ..< mu] w1
            else
              (let w2 = fold (\<lambda>nu w. wr w 0 (axpy env n (d__1 env) (rd w (nu * n) n) (rd w 0 n)))
                          [1 ..< m1] w1;
                   w3 = wr w2 n (rd w2 (q_z c) n);
                   w4 = fold (\<lambda>nu w. wr w n (axpy env n (d__1 env) (rd w (q_z c + nu * n) n) (rd w n n)))
                          [1 ..< m1] w3
               in w4(q_rho c + 2 * mu * mu - 1 := f_real env (dot env n (rd w4 0 n) (rd w4 n n)))))
      else wr w (q_rho c + 2 * mu * mu - mu div m1)
             (replicate (mu div m1 + (mu * (mu + 1)) div 2) (f_zero env)))"

text \<open>Lines 259 to 265: \<open>rhs\<close> is unpacked and copied, then \<open>posv\<close> solves with \<open>rho\<close>.\<close>

definition bcg_posv :: "'k env \<Rightarrow> 'k bcg_ctx \<Rightarrow> 'k bcg_state \<Rightarrow> int \<times> 'k bcg_state" where
  "bcg_posv env c s =
     (let mu = b_mu c; rho2 = q_rho c + mu * mu;
          w1 = unpack_upper env mu (q_rhs c) (bcg_w s);
          w2 = wr w1 rho2 (rd w1 (q_rhs c) (mu * mu))
      in case posv env mu (rd w2 (q_rho c) (mu * mu)) (rd w2 (q_rhs c) (mu * mu))
         of (info, a, sl) \<Rightarrow>
           (info, s\<lparr>bcg_w := wr (wr w2 (q_rho c) a) (q_rhs c) sl,
                    bcg_c := (fst (bcg_c s), snd (bcg_c s) @ [Info ''posv'' info])\<rparr>))"

text \<open>
  Lines 272 to 276: \<open>std::copy(p, r, trash)\<close> moves \<open>p\<close> to \<open>trash\<close> and \<open>z\<close> to \<open>p\<close>, and
  \<open>gemm\<close> adds the old \<open>p\<close> times \<open>rhs\<close> to the new one.
\<close>

definition bcg_direction :: "'k env \<Rightarrow> 'k bcg_ctx \<Rightarrow> 'k array \<Rightarrow> 'k array" where
  "bcg_direction env c w =
     (let mu = b_mu c; n = b_n c; dim = b_dim c in
      if \<not> b_excluded c \<and> n \<noteq> 0 then
        (let w1 = wr w (q_rhs c) (trmm env mu (rd w (q_gamma c) (mu * mu)) (rd w (q_rhs c) (mu * mu)));
             w2 = wr w1 0 (rd w1 (q_p c) (q_r c - q_p c))
         in wr w2 (q_p c)
              (gemm env n mu (d__1 env) (rd w2 0 dim) (rd w2 (q_rhs c) (mu * mu)) (rd w2 (q_p c) dim)))
      else w)"

text \<open>
  Lines 230 to 255: the update, the residual, its reduction and the convergence test.
  The result tells whether \<open>checkBlockConvergence\<close> returned \<open>mu\<close>. (\<open>m[1]\<close> is not
  zero: the caller has tested it.)
\<close>

definition bcg_test :: "'k env \<Rightarrow> 'k bcg_ctx \<Rightarrow> 16 word \<Rightarrow> 'k bcg_state \<Rightarrow> bool \<times> 'k bcg_state" where
  "bcg_test env c i s =
     (let mu = b_mu c; m1 = unat (b_m1 c);
          s2 = bcg_update env c s;
          s3 = bcg_allreduce env (q_rhs c - mu div m1) (mu div m1 + (mu * (mu + 1)) div 2)
                 (s2\<lparr>bcg_w := bcg_residual env c (bcg_w s2)\<rparr>)
      in case checkBlockConvergence env 3 (b_id0 c) i (b_tol c) mu mu
                (rd (bcg_norm s3) 0 mu)
                (rd (bcg_w s3) (q_rho c + 2 * mu * mu - mu div m1) (mu div m1)) 0
                (rd (bcg_w s3) 0 (b_dim c)) (b_m1 c)
         of (conv, trash') \<Rightarrow> (int mu = conv, s3\<lparr>bcg_w := wr (bcg_w s3) 0 trash'\<rparr>))"

text \<open>Lines 272 to 277: the new direction block and its factorization \<open>QR\<close>.\<close>

definition bcg_reorthogonalise :: "'k env \<Rightarrow> 'k bcg_ctx \<Rightarrow> 'k bcg_state \<Rightarrow> int \<times> 'k bcg_state" where
  "bcg_reorthogonalise env c s = bcg_QR env c (s\<lparr>bcg_w := bcg_direction env c (bcg_w s)\<rparr>)"

text \<open>
  Lines 210 to 284: one execution of the body, entered with the counter \<open>i\<close>. The
  divisions by \<open>m[1]\<close> of lines 253 to 255 fail when it is zero. The counter is an
  \<open>unsigned short\<close>: \<open>++i\<close> at 65535 gives 0, which the guard \<open>i <= m[0]\<close> accepts
  again; the model stops there with \<open>Counter_wraps\<close>.
\<close>

definition BCG_body :: "'k env \<Rightarrow> 'k bcg_ctx \<Rightarrow> 16 word \<Rightarrow> 'k bcg_state \<Rightarrow> 'k bcg_step" where
  "BCG_body env c i s =
     (case bcg_ppsv env c s of (info1, s1) \<Rightarrow>
        if info1 \<noteq> 0 then Breakdown s1
        else if unat (b_m1 c) = 0 then Failed Integer_division_by_zero
        else
          (case bcg_test env c i s1 of (conv, s4) \<Rightarrow>
             if conv then Converged s4
             else if i = - 1 then Failed Counter_wraps
             else
               (case bcg_posv env c s4 of (info2, s5) \<Rightarrow>
                  if info2 \<noteq> 0 then Breakdown s5
                  else
                    (case bcg_reorthogonalise env c s5 of (info3, s6) \<Rightarrow>
                       if info3 \<noteq> 0 then Breakdown s6
                       else Continue
                         (s6\<lparr>bcg_w := wr (bcg_w s6) (q_rho c)
                                (rd (bcg_w s6) (q_rho c + b_mu c * b_mu c) (b_mu c * b_mu c))\<rparr>)))))"

text \<open>Lines 286 to 290: the normal exit.\<close>

definition BCG_finish :: "'k bcg_ctx \<Rightarrow> 16 word \<Rightarrow> nat \<Rightarrow> 'k bcg_state \<Rightarrow> 'k outcome" where
  "BCG_finish c i e s =
     \<lparr>ret = uint (min i (b_m0 c)), sol = bcg_x s,
      events = snd (bcg_c s) @
        [Report ''convergence<3>'' (b_id0 c) (unat i) (unat (b_m0 c)), Delete ''norm'',
         Delete ''trash'', Operator_end (b_allocate c)],
      executed = e\<rparr>"

text \<open>Lines 208 to 290: the loop. \<open>e\<close> counts the executions of the body.\<close>

function BCG_loop :: "'k env \<Rightarrow> 'k bcg_ctx \<Rightarrow> 16 word \<Rightarrow> nat \<Rightarrow> 'k bcg_state \<Rightarrow> failure + 'k outcome" where
  "BCG_loop env c i e s =
     (if i \<le> b_m0 c then
        (case BCG_body env c i s of
           Breakdown s' \<Rightarrow> BCG_fallback env c [''norm'', ''trash''] s'
         | Failed f \<Rightarrow> Inl f
         | Converged s' \<Rightarrow> Inr (BCG_finish c i (e + 1) s')
         | Continue s' \<Rightarrow>
             if i = - 1 then Inl Counter_wraps else BCG_loop env c (i + 1) (e + 1) s')
      else Inr (BCG_finish c i e s))"
  by pat_completeness auto
termination
  by (relation "measure (\<lambda>(env, c, i, e, s). 65536 - unat i)") (simp_all add: measure_succ16)

declare BCG_loop.simps [simp del]

text \<open>
  Lines 161 to 192: the set-up, up to the first factorization \<open>QR\<close>; the result is its
  \<open>info\<close>.
\<close>

definition BCG_init :: "'k env \<Rightarrow> 'k bcg_ctx \<Rightarrow> 'k array \<Rightarrow> int \<times> 'k bcg_state" where
  "BCG_init env c x =
     (let dim = b_dim c; mu = b_mu c;
          w0 = heap env;
          w1 = (if \<not> b_excluded c then wr w0 (q_z c) (A_GMV (b_A c) 0 (rd x 0 dim) mu) else w0);
          w2 = wr w1 (q_r c) (rd (b_b c) 0 dim);
          w3 = wr w2 (q_r c) (axpy env dim (d__2 env) (rd w2 (q_z c) dim) (rd w2 (q_r c) dim));
          w4 = bcg_apply c 0 (q_r c) (q_p c) (q_z c) w3;
          w5 = bcg_diag env c (q_p c) w4;
          w6 = bcg_gram_local env c (q_r c) (q_rho c) w5;
          s1 = bcg_allreduce env (q_rho c) ((mu * (mu + 1)) div 2)
                 \<lparr>bcg_x = x, bcg_w = w6, bcg_norm = heap env, bcg_c = (0, [])\<rparr>;
          w7 = unpack_upper env mu (q_rho c) (bcg_w s1);
          w8 = wr w7 (q_rho c + mu * mu) (rd w7 (q_rho c) (mu * mu))
      in bcg_QR env c (s1\<lparr>bcg_w := w8\<rparr>))"

text \<open>Lines 198 to 207: the norms the convergence test compares with.\<close>

definition bcg_norms :: "'k env \<Rightarrow> 'k bcg_ctx \<Rightarrow> 'k bcg_state \<Rightarrow> 'k bcg_state" where
  "bcg_norms env c s =
     (let mu = b_mu c; m1 = unat (b_m1 c) in
      if m1 \<le> 1 then
        s\<lparr>bcg_norm := fold (\<lambda>nu a. a(nu := nrm2 env (nu + 1) (rd (bcg_w s) (q_gamma c + mu * nu) (nu + 1))))
                        [0 ..< mu] (bcg_norm s)\<rparr>
      else
        (let w1 = wr (bcg_w s) (q_z c) (replicate m1 (f_zero env));
             w2 = fold (\<lambda>nu w. wr w (q_z c)
                     (axpy env (nu + 1) (d__1 env) (rd w (q_gamma c + mu * nu) (nu + 1))
                        (rd w (q_z c) (nu + 1))))
                    [0 ..< m1] w1
         in s\<lparr>bcg_w := w2, bcg_norm := (bcg_norm s)(0 := nrm2 env m1 (rd w2 (q_z c) m1))\<rparr>))"

text \<open>Lines 148 to 171: the values fixed before the loop, as BCG computes them.\<close>

definition BCG_ctx :: "'k env \<Rightarrow> bool \<Rightarrow> bool \<Rightarrow> 'k operator \<Rightarrow> 'k array \<Rightarrow> 'k array \<Rightarrow> nat \<Rightarrow>
    'k bcg_ctx" where
  "BCG_ctx env is_complex excluded A b x mu =
     (case options env 3 (A_prefix A) of (tol, m0, id0, id1) \<Rightarrow>
        \<lparr>b_excluded = excluded, b_is_complex = is_complex, b_A = A, b_b = b,
         b_n = (if excluded then 0 else A_getDof A), b_mu = mu, b_m0 = m0,
         b_m1 = word_of_int (val env (A_prefix A @ ''enlarge_krylov_subspace'') 1),
         b_tol = tol, b_id0 = id0, b_id1 = id1,
         b_allocate = fst (A_start A excluded b x mu)\<rparr>)"

text \<open>
  Lines 147 to 291. \<open>val<char>\<close> and \<open>val<unsigned short>\<close> convert the option's value;
  the loop of line 188 does not end when \<open>mu\<close> is above 65535.
\<close>

definition BCG :: "'k env \<Rightarrow> bool \<Rightarrow> bool \<Rightarrow> 'k operator \<Rightarrow> 'k array \<Rightarrow> 'k array \<Rightarrow> nat \<Rightarrow>
    failure + 'k outcome" where
  "BCG env is_complex excluded A b x mu =
     (if redirected env A then GMRES env excluded A b x mu
      else if sint (word_of_int (val env (A_prefix A @ ''variant'') 0) :: 8 word) = 2
      then CG env is_complex excluded A b x mu
      else if 65536 \<le> mu then Inl Loop_diverges
      else
        (let c = BCG_ctx env is_complex excluded A b x mu
         in case BCG_init env c (snd (A_start A excluded b x mu)) of (info, s) \<Rightarrow>
              if info \<noteq> 0 then BCG_fallback env c [''trash''] s
              else BCG_loop env c 1 0 (bcg_norms env c s)))"


section \<open>\<open>IterativeMethod::PCG\<close> (src/include/CG.hpp, lines 292 to 399)\<close>

text \<open>
  The operator contract PCG uses. \<open>ptr_type\<close> is \<open>K*\<close> when \<open>*A.getScaling()\<close> is not a
  pointer (\<open>F_is_array\<close>) and \<open>K**\<close> otherwise. In both cases a vector of the
  iteration is one array of \<open>K\<close> (for \<open>K**\<close> the array \<open>*pt\<close>, which is what the
  overloads of \<open>axpy\<close> and \<open>dot\<close> of iterative.hpp, lines 146 to 165, work on). Each
  callback is a function of its arguments and returns the array it writes:
  \<open>precond(r, z)\<close> writes \<open>z\<close>, \<open>project<excluded, 'N'>(z, p)\<close> writes \<open>p\<close>,
  \<open>project<excluded, 'T'>(r)\<close> writes \<open>r\<close>, \<open>apply(p, z)\<close> writes \<open>z\<close>, \<open>computeDot\<close>
  returns the reduced value, \<open>start\<close> returns its flag and the arrays it is given by
  non-const pointer, \<open>allocateArray\<close> and \<open>allocateSingle\<close> return fresh arrays. The
  first argument of the callbacks that communicate is the number of reductions made so
  far, as for CG.
\<close>

record 'k pcg_operator =
  F_prefix :: string
  F_is_array :: bool
  F_getDof :: nat
  F_getMult :: nat
  F_getEliminated :: nat
  F_getScaling :: "'k array option"
  F_allocateArray :: "'k array \<times> 'k array"
  F_start :: "bool \<Rightarrow> 'k array \<Rightarrow> 'k array \<Rightarrow> nat \<Rightarrow> 'k array option \<Rightarrow> 'k array \<Rightarrow>
              bool \<times> 'k array \<times> 'k array option \<times> 'k array"
  F_allocateSingle :: "nat \<Rightarrow> 'k array"
  F_precond :: "nat \<Rightarrow> 'k array \<Rightarrow> 'k array \<Rightarrow> 'k array"
  F_project_N :: "nat \<Rightarrow> bool \<Rightarrow> 'k array \<Rightarrow> 'k array \<Rightarrow> 'k array"
  F_project_T :: "nat \<Rightarrow> bool \<Rightarrow> 'k array \<Rightarrow> 'k array"
  F_apply :: "nat \<Rightarrow> 'k array \<Rightarrow> 'k array \<Rightarrow> 'k array"
  F_computeDot :: "nat \<Rightarrow> bool \<Rightarrow> 'k array \<Rightarrow> 'k array \<Rightarrow> 'k"
  F_computeSolution :: "bool \<Rightarrow> 'k array \<Rightarrow> 'k array \<Rightarrow> 'k array"

text \<open>
  The values fixed before the loop: the template argument \<open>excluded\<close>, the operator,
  \<open>n\<close>, \<open>offset\<close>, the cap \<open>it\<close>, the tolerance, \<open>resInit\<close> and the flag \<open>start\<close> has
  returned. The verbosity is not among them: it is an argument of its own of the
  functions that read it.
\<close>

record 'k pcg_ctx =
  g_excluded :: bool
  g_A :: "'k pcg_operator"
  g_n :: nat
  g_offset :: nat
  g_it :: "16 word"
  g_tol :: 'k
  g_resInit :: 'k
  g_allocate :: bool

text \<open>
  The memory of the loop: \<open>x\<close>, \<open>storage[0]\<close> (the residual), \<open>storage[1]\<close>, the vectors
  \<open>z\<close> and \<open>p\<close> as the lists of the arrays they point to (\<open>zCurr\<close> and \<open>pCurr\<close> point to
  the last ones at the head of the loop), \<open>alpha\<close>, and the count of reductions with
  the events so far.
\<close>

record 'k pcg_state =
  pcg_x :: "'k array"
  pcg_r :: "'k array"
  pcg_lambda :: "'k array"
  pcg_z :: "'k array list"
  pcg_p :: "'k array list"
  pcg_alpha :: "'k array"
  pcg_c :: "nat \<times> 'k event list"

text \<open>What is written to \<open>std::cout\<close> at line 374, and the call of \<open>convergence<6>\<close>
  (a function that returns nothing) at line 385.\<close>

datatype 'k diagnostic =
    Cout nat 'k 'k 'k 'k
  | Convergence6 int nat nat

text \<open>
  iterative.hpp, lines 158 to 165: \<open>dot\<close> on \<open>ptr_type\<close>, which halves the result for
  \<open>K**\<close>; lines 146 to 157: \<open>axpy\<close>; lines 166 to 175: \<open>diag\<close>, which does nothing for
  \<open>K**\<close>.
\<close>

definition pcg_dot :: "'k env \<Rightarrow> 'k pcg_ctx \<Rightarrow> 'k array \<Rightarrow> 'k array \<Rightarrow> 'k" where
  "pcg_dot env c x y =
     (if F_is_array (g_A c) then dot env (g_n c) (rd x 0 (g_n c)) (rd y 0 (g_n c))
      else f_div env (dot env (g_n c) (rd x 0 (g_n c)) (rd y 0 (g_n c)))
             (f_add env (f_one env) (f_one env)))"

definition pcg_axpy :: "'k env \<Rightarrow> 'k pcg_ctx \<Rightarrow> 'k \<Rightarrow> 'k array \<Rightarrow> 'k array \<Rightarrow> 'k array" where
  "pcg_axpy env c a x y = wr y 0 (axpy env (g_n c) a (rd x 0 (g_n c)) (rd y 0 (g_n c)))"

definition pcg_allreduce :: "'k env \<Rightarrow> nat \<Rightarrow> nat \<Rightarrow> 'k pcg_state \<Rightarrow> 'k pcg_state" where
  "pcg_allreduce env off cnt s =
     (case MPI_Allreduce env (remote env) (pcg_alpha s) off cnt mpi_type (pcg_c s)
      of (a, c') \<Rightarrow> s\<lparr>pcg_alpha := a, pcg_c := c'\<rparr>)"

text \<open>Lines 329 to 334: the new direction is projected and made conjugate to the
  previous ones. \<open>pCurr\<close> is the last element of \<open>p\<close>.\<close>

definition pcg_direction :: "'k env \<Rightarrow> 'k pcg_ctx \<Rightarrow> nat \<Rightarrow> 'k pcg_state \<Rightarrow> 'k pcg_state" where
  "pcg_direction env c i s =
     (let it = unat (g_it c);
          p1 = F_project_N (g_A c) (fst (pcg_c s)) (g_excluded c) (last (pcg_z s)) (last (pcg_p s));
          a1 = fold (\<lambda>k a. a(it + k := pcg_dot env c (pcg_z s ! k) p1)) [0 ..< i - 1] (pcg_alpha s);
          s1 = pcg_allreduce env it (i - 1) (s\<lparr>pcg_alpha := a1\<rparr>);
          (a2, p2) = fold (\<lambda>k (a, p).
                        (let a' = a(it + k := f_div env (a (it + k)) (f_neg env (a k)))
                         in (a', pcg_axpy env c (a' (it + k)) (pcg_p s ! k) p)))
                      [0 ..< i - 1] (pcg_alpha s1, p1)
      in s1\<lparr>pcg_alpha := a2, pcg_p := butlast (pcg_p s) @ [p2]\<rparr>)"

text \<open>
  Lines 335 to 357: \<open>A.apply\<close> overwrites the vector \<open>zCurr\<close> points to, a new \<open>zCurr\<close>
  is allocated, the two scalar products are reduced, \<open>x\<close> (or \<open>storage[1]\<close>) and the
  residual are updated, and the new \<open>zCurr\<close> is appended to \<open>z\<close> and preconditioned.
\<close>

definition pcg_step :: "'k env \<Rightarrow> 'k pcg_ctx \<Rightarrow> nat \<Rightarrow> 'k pcg_state \<Rightarrow> 'k pcg_state" where
  "pcg_step env c i s =
     (let it = unat (g_it c); n = g_n c; A = g_A c;
          pc = last (pcg_p s);
          zb = F_apply A (fst (pcg_c s)) pc (last (pcg_z s));
          z0 = F_allocateSingle A (length (pcg_z s) + length (pcg_p s));
          z1 = (if F_is_array A then wr z0 0 (diag env n (F_getScaling A) (rd pc 0 n) 1) else z0);
          w = (if F_is_array A then z1 else pc);
          a1 = (pcg_alpha s)(i - 1 := pcg_dot env c zb w);
          a2 = a1(i := pcg_dot env c (pcg_r s) w);
          s1 = pcg_allreduce env (i - 1) 2 (s\<lparr>pcg_alpha := a2\<rparr>);
          a3 = (pcg_alpha s1)(it := f_div env (pcg_alpha s1 i) (pcg_alpha s1 (i - 1)));
          x1 = (if F_is_array A
                then wr (pcg_x s1) (g_offset c)
                       (axpy env n (a3 it) (rd pc 0 n) (rd (pcg_x s1) (g_offset c) n))
                else pcg_x s1);
          l1 = (if F_is_array A then pcg_lambda s1 else pcg_axpy env c (a3 it) pc (pcg_lambda s1));
          a4 = a3(it := f_neg env (a3 it));
          r1 = pcg_axpy env c (a4 it) zb (pcg_r s1);
          r2 = F_project_T A (fst (pcg_c s1)) (g_excluded c) r1;
          z2 = F_precond A (fst (pcg_c s1)) r2 z1
      in s1\<lparr>pcg_x := x1, pcg_lambda := l1, pcg_alpha := a4, pcg_r := r2,
             pcg_z := butlast (pcg_z s) @ [zb, z2]\<rparr>)"

text \<open>Lines 359 to 366: the body on a rank without unknowns.\<close>

definition pcg_excluded_step :: "'k env \<Rightarrow> 'k pcg_ctx \<Rightarrow> nat \<Rightarrow> 'k pcg_state \<Rightarrow> 'k pcg_state" where
  "pcg_excluded_step env c i s =
     (let A = g_A c;
          p1 = F_project_N A (fst (pcg_c s)) (g_excluded c) (last (pcg_z s)) (last (pcg_p s));
          s1 = pcg_allreduce env 0 (i - 1)
                 (s\<lparr>pcg_p := butlast (pcg_p s) @ [p1],
                    pcg_alpha := wr (pcg_alpha s) 0 (replicate (i - 1) (f_zero env))\<rparr>);
          s2 = pcg_allreduce env 0 2
                 (s1\<lparr>pcg_alpha := wr (pcg_alpha s1) 0 (replicate 2 (f_zero env))\<rparr>)
      in s2\<lparr>pcg_r := F_project_T A (fst (pcg_c s2)) (g_excluded c) (pcg_r s2)\<rparr>)"

text \<open>
  Lines 328 to 371: the body up to the computation of \<open>resRel\<close>, entered with the
  counter \<open>i\<close>. The result is \<open>resRel\<close> and the state; \<open>computeDot\<close> is recorded as an
  event and counted as a reduction.
\<close>

definition PCG_body :: "'k env \<Rightarrow> 'k pcg_ctx \<Rightarrow> nat \<Rightarrow> 'k pcg_state \<Rightarrow> 'k \<times> 'k pcg_state" where
  "PCG_body env c i s =
     (let s1 = (if \<not> g_excluded c then pcg_step env c i (pcg_direction env c i s)
                else pcg_excluded_step env c i s);
          d = F_computeDot (g_A c) (fst (pcg_c s1)) (g_excluded c) (last (pcg_z s1)) (last (pcg_z s1))
      in (f_sqrt env d,
          s1\<lparr>pcg_c := (Suc (fst (pcg_c s1)), snd (pcg_c s1) @ [Compute_dot (g_excluded c)])\<rparr>))"

text \<open>Lines 379 to 383, with \<open>i\<close> already incremented: a new \<open>pCurr\<close> is appended to \<open>p\<close>
  and \<open>z[i - 2]\<close> is scaled in place (which does nothing for \<open>K**\<close>).\<close>

definition pcg_next :: "'k env \<Rightarrow> 'k pcg_ctx \<Rightarrow> nat \<Rightarrow> 'k pcg_state \<Rightarrow> 'k pcg_state" where
  "pcg_next env c i s =
     (if \<not> g_excluded c then
        s\<lparr>pcg_p := pcg_p s @ [F_allocateSingle (g_A c) (length (pcg_z s) + length (pcg_p s))],
          pcg_z := (if F_is_array (g_A c)
                    then (pcg_z s)[i - 2 :=
                           wr (pcg_z s ! (i - 2)) 0
                             (diag env (g_n c) (F_getScaling (g_A c)) (rd (pcg_z s ! (i - 2)) 0 (g_n c)) 1)]
                    else pcg_z s)\<rparr>
      else s)"

text \<open>Line 375: the test that ends the loop.\<close>

definition pcg_converged :: "'k env \<Rightarrow> 'k pcg_ctx \<Rightarrow> 'k \<Rightarrow> bool" where
  "pcg_converged env c resRel \<longleftrightarrow> f_le env (f_div env resRel (g_resInit c)) (g_tol c)"

text \<open>Lines 373 and 374: the line written when the verbosity is above 2.\<close>

definition pcg_cout :: "'k env \<Rightarrow> 'k pcg_ctx \<Rightarrow> int \<Rightarrow> nat \<Rightarrow> 'k \<Rightarrow> 'k diagnostic list" where
  "pcg_cout env c verbosity i resRel =
     (if 2 < verbosity
      then [Cout i resRel (g_resInit c) (f_div env resRel (g_resInit c)) (g_tol c)]
      else [])"

text \<open>
  Lines 327 to 384: the loop. The result is the final value of \<open>i\<close>, the number of
  executions of the body, the state and what was written. The counter is an
  \<open>unsigned short\<close>: \<open>++i\<close> at 65535 gives 0, which the guard \<open>i <= it\<close> accepts
  again, and the body then indexes \<open>alpha\<close> at \<open>i - 1 = -1\<close>; the model stops there with
  \<open>Counter_wraps\<close>.
\<close>

function PCG_loop :: "'k env \<Rightarrow> 'k pcg_ctx \<Rightarrow> int \<Rightarrow> 16 word \<Rightarrow> nat \<Rightarrow> 'k pcg_state \<times> 'k diagnostic list \<Rightarrow>
    failure + 16 word \<times> nat \<times> 'k pcg_state \<times> 'k diagnostic list" where
  "PCG_loop env c verbosity i e so =
     (if i \<le> g_it c then
        (case PCG_body env c (unat i) (fst so) of (resRel, s1) \<Rightarrow>
           (let out1 = snd so @ pcg_cout env c verbosity (unat i) resRel
            in if pcg_converged env c resRel then Inr (i, e + 1, s1, out1)
               else if i = - 1 then Inl Counter_wraps
               else PCG_loop env c verbosity (i + 1) (e + 1)
                      (pcg_next env c (unat (i + 1)) s1, out1)))
      else Inr (i, e, so))"
  by pat_completeness auto
termination
  by (relation "measure (\<lambda>(env, c, verbosity, i, e, so). 65536 - unat i)")
    (simp_all add: measure_succ16)

declare PCG_loop.simps [simp del]

text \<open>
  Lines 299 to 325: the set-up. The result is the context and the state with which
  the loop is entered.
\<close>

definition PCG_init :: "'k env \<Rightarrow> bool \<Rightarrow> 'k pcg_operator \<Rightarrow> 'k array \<Rightarrow> 'k array \<Rightarrow> 'k \<Rightarrow> 16 word \<Rightarrow>
    'k pcg_ctx \<times> 'k pcg_state" where
  "PCG_init env excluded A f x tol it =
     (let n = (if F_is_array A then F_getDof A else F_getMult A);
          offset = (if F_is_array A then F_getEliminated A else 0);
          (st0, st1) = F_allocateArray A;
          (allocate, x1, l1, r1) =
             (if F_is_array A then F_start A excluded f x offset None st0
              else F_start A excluded f x 0 (Some st1) st0);
          z0 = F_allocateSingle A 0;
          z1 = (if \<not> excluded then F_precond A 0 r1 z0 else z0);
          resInit = f_sqrt env (F_computeDot A 0 excluded z1 z1);
          p0 = F_allocateSingle A 1
      in (\<lparr>g_excluded = excluded, g_A = A, g_n = n, g_offset = offset, g_it = it, g_tol = tol,
           g_resInit = resInit, g_allocate = allocate\<rparr>,
          \<lparr>pcg_x = x1, pcg_r = r1, pcg_lambda = (case l1 of None \<Rightarrow> st1 | Some l \<Rightarrow> l),
           pcg_z = [z1], pcg_p = [p0], pcg_alpha = heap env,
           pcg_c = (Suc 0, [Compute_dot excluded])\<rparr>))"

text \<open>
  Lines 385 to 398, after the loop has ended with the counter \<open>i\<close>: \<open>convergence<6>\<close>,
  \<open>computeSolution\<close>, the frees, the end of the operator's scope, and the value
  \<open>std::min(i, it)\<close>. The result also holds the final state and what was written.
\<close>

definition PCG_finish :: "'k pcg_ctx \<Rightarrow> int \<Rightarrow> 'k array \<Rightarrow> 16 word \<times> nat \<times> 'k pcg_state \<times> 'k diagnostic list \<Rightarrow>
    'k outcome \<times> 'k pcg_state \<times> 'k diagnostic list" where
  "PCG_finish c verbosity f r =
     (case r of (i, e, s, out) \<Rightarrow>
        (\<lparr>ret = uint (min i (g_it c)),
          sol = F_computeSolution (g_A c) (g_excluded c)
                  (if F_is_array (g_A c) then f else pcg_lambda s) (pcg_x s),
          events = snd (pcg_c s) @
            [Delete ''alpha''] @ map (\<lambda>v. Delete ''z'') (pcg_z s)
            @ map (\<lambda>v. Delete ''p'') (pcg_p s) @ [Delete ''storage[0]'', Operator_end (g_allocate c)],
          executed = e\<rparr>,
         s, out @ [Convergence6 verbosity (unat i) (unat (g_it c))]))"

text \<open>Lines 293 to 399, for the tolerance, the cap and the verbosity that
  \<open>options<6>\<close> has returned.\<close>

definition PCG_with :: "'k env \<Rightarrow> bool \<Rightarrow> 'k pcg_operator \<Rightarrow> 'k array \<Rightarrow> 'k array \<Rightarrow> 'k \<Rightarrow> 16 word \<Rightarrow> int \<Rightarrow>
    failure + 'k outcome \<times> 'k pcg_state \<times> 'k diagnostic list" where
  "PCG_with env excluded A f x tol it verbosity =
     (case PCG_init env excluded A f x tol it of (c, s) \<Rightarrow>
        (case PCG_loop env c verbosity 1 0 (s, []) of
           Inl fl \<Rightarrow> Inl fl
         | Inr r \<Rightarrow> Inr (PCG_finish c verbosity f r)))"

definition PCG :: "'k env \<Rightarrow> bool \<Rightarrow> 'k pcg_operator \<Rightarrow> 'k array \<Rightarrow> 'k array \<Rightarrow>
    failure + 'k outcome \<times> 'k pcg_state \<times> 'k diagnostic list" where
  "PCG env excluded A f x =
     (case options env 6 (F_prefix A) of (tol, it, verbosity, unused) \<Rightarrow>
        PCG_with env excluded A f x tol it verbosity)"

text \<open>
  The course of the loop when the test of line 375 is ignored: \<open>PCG_resRel k\<close> is the
  value of \<open>resRel\<close> that the \<open>k\<close>-th execution of the body computes and \<open>PCG_at k\<close> the
  state in which that execution leaves the loop's memory, \<open>PCG_before k\<close> the state in
  which it finds it, all for the loop entered in the state \<open>s\<close>.
\<close>

fun PCG_before :: "'k env \<Rightarrow> 'k pcg_ctx \<Rightarrow> 'k pcg_state \<Rightarrow> nat \<Rightarrow> 'k pcg_state" where
  "PCG_before env c s 0 = s"
| "PCG_before env c s (Suc 0) = s"
| "PCG_before env c s (Suc (Suc k)) =
     pcg_next env c (Suc (Suc k)) (snd (PCG_body env c (Suc k) (PCG_before env c s (Suc k))))"

definition PCG_at :: "'k env \<Rightarrow> 'k pcg_ctx \<Rightarrow> 'k pcg_state \<Rightarrow> nat \<Rightarrow> 'k pcg_state" where
  "PCG_at env c s k = snd (PCG_body env c k (PCG_before env c s k))"

definition PCG_resRel :: "'k env \<Rightarrow> 'k pcg_ctx \<Rightarrow> 'k pcg_state \<Rightarrow> nat \<Rightarrow> 'k" where
  "PCG_resRel env c s k = fst (PCG_body env c k (PCG_before env c s k))"

text \<open>What is written during the first \<open>k\<close> executions of the body.\<close>

definition PCG_written :: "'k env \<Rightarrow> 'k pcg_ctx \<Rightarrow> int \<Rightarrow> 'k pcg_state \<Rightarrow> nat \<Rightarrow> 'k diagnostic list" where
  "PCG_written env c verbosity s k =
     concat (map (\<lambda>j. pcg_cout env c verbosity j (PCG_resRel env c s j)) [1 ..< Suc k])"

section \<open>A concrete setting for the solvers\<close>

text \<open>
  IEEE 754 values as far as the examples need them: a finite number, the two
  infinities, and NaN. The operations are those of the standard on these values, with
  exact results on finite numbers (the examples only use values on which the rounded
  result is the exact one) and one zero. In particular \<open>0 / 0\<close> is NaN, an operation
  with a NaN operand is NaN, and a comparison with NaN is false.
\<close>

datatype ieee = Finite real | PlusInfinity | MinusInfinity | NaN

fun ieee_neg :: "ieee \<Rightarrow> ieee" where
  "ieee_neg (Finite a) = Finite (- a)"
| "ieee_neg PlusInfinity = MinusInfinity"
| "ieee_neg MinusInfinity = PlusInfinity"
| "ieee_neg NaN = NaN"

fun ieee_add :: "ieee \<Rightarrow> ieee \<Rightarrow> ieee" where
  "ieee_add (Finite a) (Finite b) = Finite (a + b)"
| "ieee_add NaN _ = NaN"
| "ieee_add _ NaN = NaN"
| "ieee_add PlusInfinity MinusInfinity = NaN"
| "ieee_add MinusInfinity PlusInfinity = NaN"
| "ieee_add PlusInfinity _ = PlusInfinity"
| "ieee_add MinusInfinity _ = MinusInfinity"
| "ieee_add _ PlusInfinity = PlusInfinity"
| "ieee_add _ MinusInfinity = MinusInfinity"

definition ieee_signed_infinity :: "bool \<Rightarrow> ieee" where
  "ieee_signed_infinity positive = (if positive then PlusInfinity else MinusInfinity)"

fun ieee_mul :: "ieee \<Rightarrow> ieee \<Rightarrow> ieee" where
  "ieee_mul (Finite a) (Finite b) = Finite (a * b)"
| "ieee_mul NaN _ = NaN"
| "ieee_mul _ NaN = NaN"
| "ieee_mul PlusInfinity (Finite b) = (if b = 0 then NaN else ieee_signed_infinity (0 < b))"
| "ieee_mul MinusInfinity (Finite b) = (if b = 0 then NaN else ieee_signed_infinity (b < 0))"
| "ieee_mul (Finite a) PlusInfinity = (if a = 0 then NaN else ieee_signed_infinity (0 < a))"
| "ieee_mul (Finite a) MinusInfinity = (if a = 0 then NaN else ieee_signed_infinity (a < 0))"
| "ieee_mul PlusInfinity PlusInfinity = PlusInfinity"
| "ieee_mul MinusInfinity MinusInfinity = PlusInfinity"
| "ieee_mul PlusInfinity MinusInfinity = MinusInfinity"
| "ieee_mul MinusInfinity PlusInfinity = MinusInfinity"

fun ieee_div :: "ieee \<Rightarrow> ieee \<Rightarrow> ieee" where
  "ieee_div (Finite a) (Finite b) =
     (if b \<noteq> 0 then Finite (a / b) else if a = 0 then NaN else ieee_signed_infinity (0 < a))"
| "ieee_div NaN _ = NaN"
| "ieee_div _ NaN = NaN"
| "ieee_div (Finite a) _ = Finite 0"
| "ieee_div PlusInfinity (Finite b) = ieee_signed_infinity (0 \<le> b)"
| "ieee_div MinusInfinity (Finite b) = ieee_signed_infinity (b < 0)"
| "ieee_div _ _ = NaN"

fun ieee_sqrt :: "ieee \<Rightarrow> ieee" where
  "ieee_sqrt (Finite a) = (if 0 \<le> a then Finite (sqrt a) else NaN)"
| "ieee_sqrt PlusInfinity = PlusInfinity"
| "ieee_sqrt _ = NaN"

fun ieee_le :: "ieee \<Rightarrow> ieee \<Rightarrow> bool" where
  "ieee_le (Finite a) (Finite b) \<longleftrightarrow> a \<le> b"
| "ieee_le NaN _ \<longleftrightarrow> False"
| "ieee_le _ NaN \<longleftrightarrow> False"
| "ieee_le MinusInfinity _ \<longleftrightarrow> True"
| "ieee_le _ PlusInfinity \<longleftrightarrow> True"
| "ieee_le _ _ \<longleftrightarrow> False"

text \<open>
  Modelled from the spec: \<open>checkConvergence\<close> is not in the sources ("per step, for each
  still-unconverged column, compare current relative residual to tolerance; mark
  convergence by recording the iteration index (never revisited)"). A column is still
  unconverged when its entry is the sentinel \<open>-it\<close>.
\<close>

definition checkConvergence_spec :: "('k, 'z) arith_scheme \<Rightarrow> nat \<Rightarrow> int \<Rightarrow> nat \<Rightarrow> nat \<Rightarrow> 'k \<Rightarrow> nat \<Rightarrow>
    'k list \<Rightarrow> 'k list \<Rightarrow> (nat \<Rightarrow> int) \<Rightarrow> 16 word \<Rightarrow> (nat \<Rightarrow> int)" where
  "checkConvergence_spec ar T verbosity j i tol mu nrm res conv sentinel =
     (\<lambda>nu. if nu < mu \<and> conv nu = minus_it sentinel
                \<and> f_le ar (f_div ar (res ! nu) (nrm ! nu)) tol
            then int i else conv nu)"

text \<open>
  A run on one rank (nothing comes from other ranks), real double precision, with the
  tolerance 1/2 and the cap 5, no option set, zero-filled fresh arrays, and
  \<open>checkConvergence\<close> as above. The routines CG does not call are stubs: \<open>GMRES\<close> returns
  0 at once, the factorizations succeed and leave their arguments as they are.
\<close>

definition example_solver_env :: "ieee env" where
  "example_solver_env =
     \<lparr>f_zero = Finite 0, f_one = Finite 1, f_add = ieee_add, f_mul = ieee_mul,
      f_div = ieee_div, f_neg = ieee_neg, f_sqrt = ieee_sqrt, f_real = (\<lambda>a. a),
      f_conj = (\<lambda>a. a), f_le = ieee_le,
      any_of = (\<lambda>key vs. False),
      val = (\<lambda>key dflt. dflt),
      options = (\<lambda>N prefix. (Finite (1 / 2), 5, 0, 0)),
      heap = (\<lambda>k. Finite 0),
      remote = (\<lambda>k j. Finite 0),
      GMRES = (\<lambda>excluded A b x mu. Inr \<lparr>ret = 0, sol = x, events = [], executed = 0\<rparr>),
      checkConvergence =
        checkConvergence_spec
          \<lparr>f_zero = Finite 0, f_one = Finite 1, f_add = ieee_add, f_mul = ieee_mul,
           f_div = ieee_div, f_neg = ieee_neg, f_sqrt = ieee_sqrt, f_real = (\<lambda>a. a),
           f_conj = (\<lambda>a. a), f_le = ieee_le\<rparr>,
      checkBlockConvergence = (\<lambda>T verbosity i tol mu d nrm res k work m1. (0, work)),
      QR = (\<lambda>k excluded id1 n mu p gamma d work. (0, p, gamma, work)),
      gemmt = (\<lambda>mu n a b c. c),
      trsm = (\<lambda>mu a b. b),
      trmm = (\<lambda>mu a b. b),
      gemm = (\<lambda>n mu alpha a b c. c),
      ppsv = (\<lambda>mu ap b. (0, ap, b)),
      posv = (\<lambda>mu a b. (0, a, b)),
      nrm2 = (\<lambda>n x. Finite 0)\<rparr>"

text \<open>The identity on one unknown: no scaling vector, \<open>start\<close> leaves \<open>x\<close> as it is,
  \<open>GMV\<close> and \<open>apply\<close> copy their input.\<close>

definition identity_operator :: "ieee operator" where
  "identity_operator =
     \<lparr>A_prefix = [], A_getDof = 1, A_getScaling = None,
      A_start = (\<lambda>excluded b x mu. (False, x)),
      A_GMV = (\<lambda>k v mu. v),
      A_apply = (\<lambda>k excluded v mu work. (v, work))\<rparr>"

text \<open>The same setting with the option \<open>schwarz_method\<close> set to 1, and a \<open>GMRES\<close> that
  returns 7.\<close>

definition redirecting_env :: "ieee env" where
  "redirecting_env =
     example_solver_env
       \<lparr>any_of := (\<lambda>key vs. key = ''schwarz_method'' \<and> 1 \<in> set vs),
        GMRES := (\<lambda>excluded A b x mu. Inr \<lparr>ret = 7, sol = x, events = [], executed = 0\<rparr>)\<rparr>"

text \<open>The same setting with the cap 1 and any \<open>checkConvergence\<close>.\<close>

definition one_step_env :: "(nat \<Rightarrow> int \<Rightarrow> nat \<Rightarrow> nat \<Rightarrow> ieee \<Rightarrow> nat \<Rightarrow> ieee list \<Rightarrow> ieee list \<Rightarrow>
    (nat \<Rightarrow> int) \<Rightarrow> 16 word \<Rightarrow> (nat \<Rightarrow> int)) \<Rightarrow> ieee env" where
  "one_step_env cc =
     example_solver_env\<lparr>options := (\<lambda>N prefix. (Finite (1 / 2), 1, 0, 0)), checkConvergence := cc\<rparr>"

text \<open>
  The values CG fixes before its loop in these two settings, with the identity on one
  unknown and one right-hand side, and the states of the runs below: \<open>example_state_0\<close>
  and \<open>example_state_1\<close> are the state after the set-up and after the first execution
  of the body for \<open>b = 1\<close>, \<open>x = 0\<close>; \<open>zero_state\<close> is the state after the set-up for
  \<open>b = 0\<close>, \<open>x = 0\<close>. The work arrays have 16 elements.
\<close>

definition example_ctx :: "ieee cg_ctx" where
  "example_ctx =
     \<lparr>c_excluded = False, c_A = identity_operator, c_n = 1, c_mu = 1, c_it = 5,
      c_tol = Finite (1 / 2), c_id0 = 0, c_id1 = 0\<rparr>"

definition one_step_ctx :: "ieee cg_ctx" where
  "one_step_ctx =
     \<lparr>c_excluded = False, c_A = identity_operator, c_n = 1, c_mu = 1, c_it = 1,
      c_tol = Finite (1 / 2), c_id0 = 0, c_id1 = 0\<rparr>"

definition example_state_0 :: "ieee cg_state" where
  "example_state_0 =
     \<lparr>cg_x = array_of (Finite 0) [Finite 0],
      cg_w = array_of (Finite 0)
         [Finite 1, Finite 0, Finite 1, Finite 1, Finite 0, Finite 0,
          Finite 0, Finite 0, Finite 0, Finite 0, Finite 0, Finite 0,
          Finite 0, Finite 0, Finite 0, Finite 0],
      cg_rd = array_of (Finite 0)
         [Finite 1, Finite 1, Finite 0, Finite 0, Finite 0, Finite 0,
          Finite 0, Finite 0, Finite 0, Finite 0, Finite 0, Finite 0,
          Finite 0, Finite 0, Finite 0, Finite 0],
      cg_hc = (\<lambda>nu. - 5),
      cg_c = (Suc 0, [Allreduce (Suc 0) mpi_underlying_type [Finite 1]])\<rparr>"

definition example_state_1 :: "ieee cg_state" where
  "example_state_1 =
     \<lparr>cg_x = array_of (Finite 0) [Finite 1],
      cg_w = array_of (Finite 0)
         [Finite 0, Finite 0, Finite 0, Finite 0, Finite 1, Finite 0,
          Finite 0, Finite 0, Finite 0, Finite 0, Finite 0, Finite 0,
          Finite 0, Finite 0, Finite 0, Finite 0],
      cg_rd = array_of (Finite 0)
         [Finite 1, Finite 0, Finite 0, Finite 0, Finite 0, Finite 0,
          Finite 0, Finite 1, Finite 0, Finite 0, Finite 0, Finite 0,
          Finite 0, Finite 0, Finite 0, Finite 0],
      cg_hc = (\<lambda>nu. if nu = 0 then 1 else - 5),
      cg_c = (Suc (Suc (Suc 0)),
              [Allreduce (Suc 0) mpi_underlying_type [Finite 1],
               Allreduce 2 mpi_underlying_type [Finite 1, Finite 1],
               Allreduce 2 mpi_underlying_type [Finite 0, Finite 0]])\<rparr>"

definition zero_state :: "ieee cg_state" where
  "zero_state =
     \<lparr>cg_x = array_of (Finite 0) [Finite 0],
      cg_w = array_of (Finite 0) (replicate 16 (Finite 0)),
      cg_rd = array_of (Finite 0) (replicate 16 (Finite 0)),
      cg_hc = (\<lambda>nu. - 1),
      cg_c = (Suc 0, [Allreduce (Suc 0) mpi_underlying_type [Finite 0]])\<rparr>"




text \<open>
  An operator for PCG whose callbacks leave the arrays as they are and whose
  \<open>computeDot\<close> always returns 1, so that \<open>resRel / resInit\<close> is 1 at every iteration.
\<close>

definition constant_operator :: "ieee pcg_operator" where
  "constant_operator =
     \<lparr>F_prefix = [], F_is_array = True, F_getDof = 1, F_getMult = 1, F_getEliminated = 0,
      F_getScaling = None,
      F_allocateArray = (\<lambda>k. Finite 0, \<lambda>k. Finite 0),
      F_start = (\<lambda>excluded f x offset l r. (False, x, l, f)),
      F_allocateSingle = (\<lambda>j k. Finite 0),
      F_precond = (\<lambda>k r z. r),
      F_project_N = (\<lambda>k excluded z p. z),
      F_project_T = (\<lambda>k excluded r. r),
      F_apply = (\<lambda>k p z. p),
      F_computeDot = (\<lambda>k excluded a b. Finite 1),
      F_computeSolution = (\<lambda>excluded f x. x)\<rparr>"

section \<open>Properties of the direct solver\<close>

subsection \<open>The rows of the expanded matrix\<close>

lemma length_push_entry [simp]: "length (push_entry env A i j v) = length v"
  by (simp add: push_entry_def Let_def)

lemma length_fold_push_entry [simp]: "length (fold (push_entry env A i) js v) = length v"
  by (induction js arbitrary: v) simp_all

lemma length_push_row [simp]: "length (push_row env A i v) = length v"
  by (simp add: push_row_def Let_def)

lemma length_fold_push_row [simp]: "length (fold (push_row env A) is v) = length v"
  by (induction "is" arbitrary: v) simp_all

lemma length_full_rows [simp]: "length (full_rows env A) = A_n A"
  by (simp add: full_rows_def)

lemma length_sorted_rows [simp]: "length (sorted_rows env A) = A_n A"
  by (simp add: sorted_rows_def)








subsection \<open>The CSR arrays written from the rows\<close>





subsection \<open>The example\<close>


lemma env_sel_ss:
  "HPDDM_EPS example_env = 1 / 10 ^ 12" "std_abs example_env = cmod"
  "std_sort example_env = sort_key fst"
  by (simp_all add: example_env_def)

lemma A_sel:
  "A_sym example_A" "A_m example_A = 3" "A_n example_A = 3" "A_nnz example_A = 6"
  "A_ia example_A = [0, 1, 3, 6]" "A_ja example_A = [0, 0, 1, 0, 1, 2]"
  "A_a example_A = [4, 1, 3, 0, 2, 5]"
  by (simp_all add: example_A_def)

lemma kept_example:
  "kept example_env example_A 0" "kept example_env example_A (Suc 0)" "kept example_env example_A 2"
  "\<not> kept example_env example_A 3" "kept example_env example_A 4" "kept example_env example_A 5"
  by (simp_all add: kept_def env_sel_ss A_sel)

lemma offdiag_example:
  "offdiag example_A 0 = []" "offdiag example_A (Suc 0) = [Suc 0]" "offdiag example_A (Suc (Suc 0)) = [3, 4]"
  by (simp_all add: offdiag_def A_sel upt_rec numeral_2_eq_2[symmetric])

lemma upt3: "[0..<3] = [0, Suc 0, Suc (Suc 0)]"
  by (simp add: upt_rec)

lemma rep3: "replicate 3 x = [x, x, x]"
  by (simp add: numeral_3_eq_3)

lemma in_bounds_example: "sym_in_bounds example_env example_A"
  unfolding sym_in_bounds_def
  by (simp add: A_sel upt3 offdiag_example kept_example)

lemma full_rows_example:
  "full_rows example_env example_A = [[(0, 4), (1, 1)], [(0, 1), (1, 3), (2, 2)], [(1, 2), (2, 5)]]"
  unfolding full_rows_def push_row_def Let_def
  by (simp add: A_sel upt3 offdiag_example push_entry_def kept_example rep3 numeral_2_eq_2)

lemma full_storage_example:
  "full_storage example_env example_A = ([0, 2, 5, 7], [0, 1, 0, 1, 2, 1, 2], [4, 1, 1, 3, 2, 2, 5])"
  unfolding full_storage_def sorted_rows_def full_rows_example
  by (simp add: env_sel_ss)

lemma expand_sym_example:
  "expand_sym example_env example_A =
     Inr ([0, 2, 5, 7], [0, 1, 0, 1, 2, 1, 2], [4, 1, 1, 3, 2, 2, 5])"
  unfolding expand_sym_def full_storage_example
  by (simp add: in_bounds_example full_rows_example A_sel)

subsection \<open>The solve overloads\<close>






subsection \<open>Choice of the backend\<close>








subsection \<open>A second call\<close>

text \<open>
  Claim C10. On an object that already holds a factorization (\<open>_c\<close> or \<open>_W\<close> is not
  null), \<open>numfact\<close> returns with every member as it was and calls neither library,
  whatever matrix and scalar type it is given.
\<close>

theorem numfact_factorized_is_noop:
  assumes "S_c S \<noteq> None \<or> S_W S \<noteq> None"
  shows "numfact env K A S = Inr (S, [])"
  using assms by (auto simp: numfact_def)

lemma numfact_leaves_factorized:
  assumes "numfact env K A S = Inr (S', calls)"
  shows "S_c S' \<noteq> None \<or> S_W S' \<noteq> None"
  using assms
  by (auto simp: numfact_def numfact_cholmod_def numfact_umfpack_def Let_def
      split: if_splits prod.splits sum.splits)

lemma numfact_twice:
  assumes "numfact env K A S = Inr (S', calls)"
  shows "numfact env K' A' S' = Inr (S', [])"
  using numfact_leaves_factorized[OF assms] by (auto simp: numfact_def)

theorem numfact_factorized_is_noop_witness:
  "S_c (fst (numfact_cholmod example_env Real_double example_A SuiteSparseSub_new)) \<noteq> None
   \<and> numfact example_env Complex_double (example_A\<lparr>A_sym := False\<rparr>)
       (fst (numfact_cholmod example_env Real_double example_A SuiteSparseSub_new)) =
     Inr (fst (numfact_cholmod example_env Real_double example_A SuiteSparseSub_new), [])"
proof -
  have c: "S_c (fst (numfact_cholmod example_env Real_double example_A SuiteSparseSub_new)) \<noteq> None"
    by (simp add: numfact_cholmod_def Let_def)
  show ?thesis
    using c numfact_factorized_is_noop[OF disjI1[OF c]] by blast
qed


section \<open>Concrete runs of CG\<close>

lemma array_of_const: "(\<lambda>k. d) = array_of d (replicate N d)"
  by (auto simp: array_of_def)

lemma array_of_nth: "k < length xs \<Longrightarrow> array_of d xs k = xs ! k"
  by (simp add: array_of_def)

lemma rd_array_of: "off + n \<le> length xs \<Longrightarrow> rd (array_of d xs) off n = take n (drop off xs)"
  by (auto simp: rd_def array_of_def intro!: nth_equalityI)

lemma wr_array_of:
  "off + length ys \<le> length xs \<Longrightarrow>
   wr (array_of d xs) off ys = array_of d (take off xs @ ys @ drop (off + length ys) xs)"
  by (auto simp: wr_def array_of_def nth_append fun_eq_iff)

lemma upd_array_of:
  "k < length xs \<Longrightarrow> (array_of d xs)(k := v) = array_of d (take k xs @ v # drop (Suc k) xs)"
  by (auto simp: array_of_def nth_append fun_eq_iff min_def)

lemmas cg_steps = cg_dot_r_trash_def cg_variant2_def cg_GMV_p_z_def cg_orthogonalise_def
  cg_diag_def cg_dot_z_trash_def cg_allreduce_def cg_store_def cg_update_def cg_update_column_def
  cg_apply_r_z_def cg_dots_def cg_direction_def cg_check_def cg_coefficients_def cg_gemv_def

lemmas cg_offsets = c_dim_def o_z_def o_r_def o_p_def o_dir_def

lemmas blas = dot_def axpy_def axpby_def diag_def d__0_def d__1_def d__2_def MPI_Allreduce_def

lemmas arr = array_of_nth rd_array_of wr_array_of upd_array_of

lemma env_sel:
  "f_zero example_solver_env = Finite 0" "f_one example_solver_env = Finite 1"
  "f_add example_solver_env = ieee_add" "f_mul example_solver_env = ieee_mul"
  "f_div example_solver_env = ieee_div" "f_neg example_solver_env = ieee_neg"
  "f_sqrt example_solver_env = ieee_sqrt" "f_real example_solver_env = (\<lambda>a. a)"
  "f_conj example_solver_env = (\<lambda>a. a)" "f_le example_solver_env = ieee_le"
  "heap example_solver_env = array_of (Finite 0) (replicate 16 (Finite 0))"
  "remote example_solver_env = (\<lambda>k j. Finite 0)"
  "any_of example_solver_env = (\<lambda>key vs. False)"
  "val example_solver_env = (\<lambda>key dflt. dflt)"
  "options example_solver_env = (\<lambda>N prefix. (Finite (1 / 2), 5, 0, 0))"
  by (simp_all add: example_solver_env_def array_of_const[symmetric])

lemma env_cc:
  "checkConvergence example_solver_env =
     checkConvergence_spec
       \<lparr>f_zero = Finite 0, f_one = Finite 1, f_add = ieee_add, f_mul = ieee_mul,
        f_div = ieee_div, f_neg = ieee_neg, f_sqrt = ieee_sqrt, f_real = (\<lambda>a. a),
        f_conj = (\<lambda>a. a), f_le = ieee_le\<rparr>"
  by (simp add: example_solver_env_def)

lemma op_sel:
  "A_getScaling identity_operator = None" "A_getDof identity_operator = 1"
  "A_prefix identity_operator = []"
  "A_GMV identity_operator = (\<lambda>k v mu. v)"
  "A_apply identity_operator = (\<lambda>k excluded v mu work. (v, work))"
  "A_start identity_operator = (\<lambda>excluded b x mu. (False, x))"
  by (simp_all add: identity_operator_def)

lemma rep16: "replicate 16 (x::'a) = [x,x,x,x,x,x,x,x,x,x,x,x,x,x,x,x]"
  by (simp add: numeral_eq_Suc)

lemma upt2: "[0..<2] = [0, Suc 0]"
  by (simp add: numeral_2_eq_2)


lemma env1_sel:
  "f_zero (one_step_env cc) = Finite 0" "f_one (one_step_env cc) = Finite 1"
  "f_add (one_step_env cc) = ieee_add" "f_mul (one_step_env cc) = ieee_mul"
  "f_div (one_step_env cc) = ieee_div" "f_neg (one_step_env cc) = ieee_neg"
  "f_sqrt (one_step_env cc) = ieee_sqrt" "f_real (one_step_env cc) = (\<lambda>a. a)"
  "f_conj (one_step_env cc) = (\<lambda>a. a)" "f_le (one_step_env cc) = ieee_le"
  "heap (one_step_env cc) = array_of (Finite 0) (replicate 16 (Finite 0))"
  "remote (one_step_env cc) = (\<lambda>k j. Finite 0)"
  "any_of (one_step_env cc) = (\<lambda>key vs. False)"
  "val (one_step_env cc) = (\<lambda>key dflt. dflt)"
  "options (one_step_env cc) = (\<lambda>N prefix. (Finite (1 / 2), 1, 0, 0))"
  "checkConvergence (one_step_env cc) = cc"
  by (simp_all add: one_step_env_def env_sel)

section \<open>Properties of CG and BCG\<close>

subsection \<open>The redirection to GMRES\<close>

text \<open>
  Claim C2. When the option \<open>prefix + "schwarz_method"\<close> is set to 0, 1 or 4, or the
  option \<open>prefix + "schwarz_coarse_correction"\<close> is set to 0, the result of CG, and
  that of BCG, is the result of \<open>GMRES<excluded>(A, b, x, mu, comm)\<close>: the returned
  value, the contents of \<open>x\<close>, and the events of the run, among which there is no
  iteration of CG or BCG.
\<close>

theorem redirected_solves_by_GMRES:
  assumes "any_of env (A_prefix A @ ''schwarz_method'') [0, 1, 4]
           \<or> any_of env (A_prefix A @ ''schwarz_coarse_correction'') [0]"
  shows "CG env is_complex excluded A b x mu = GMRES env excluded A b x mu
         \<and> BCG env is_complex excluded A b x mu = GMRES env excluded A b x mu"
  using assms by (simp add: CG_def BCG_def redirected_def)

theorem redirected_solves_by_GMRES_witness:
  "any_of redirecting_env (A_prefix identity_operator @ ''schwarz_method'') [0, 1, 4]
   \<and> CG redirecting_env False False identity_operator
        (array_of (Finite 0) [Finite 1]) (array_of (Finite 0) [Finite 0]) 1 =
      Inr \<lparr>ret = 7, sol = array_of (Finite 0) [Finite 0], events = [], executed = 0\<rparr>
   \<and> BCG redirecting_env False False identity_operator
        (array_of (Finite 0) [Finite 1]) (array_of (Finite 0) [Finite 0]) 1 =
      Inr \<lparr>ret = 7, sol = array_of (Finite 0) [Finite 0], events = [], executed = 0\<rparr>"
proof -
  have a: "any_of redirecting_env (A_prefix identity_operator @ ''schwarz_method'') [0, 1, 4]"
    by (simp add: redirecting_env_def identity_operator_def)
  have g: "GMRES redirecting_env False identity_operator
        (array_of (Finite 0) [Finite 1]) (array_of (Finite 0) [Finite 0]) 1 =
      Inr \<lparr>ret = 7, sol = array_of (Finite 0) [Finite 0], events = [], executed = 0\<rparr>"
    by (simp add: redirecting_env_def)
  show ?thesis
    using a redirected_solves_by_GMRES[OF disjI1[OF a], of False False
        "array_of (Finite 0) [Finite 1]" "array_of (Finite 0) [Finite 0]" 1]
    unfolding g by simp
qed

subsection \<open>The value CG returns\<close>

lemma CG_loop_result:
  assumes "CG_loop env c i e s = (i', e', s')" and "i \<le> unat (c_it c)"
  shows "i' \<le> unat (c_it c)
         \<and> (\<exists>k. e' = e + k
                \<and> ((all_converged c s' \<and> 0 < k \<and> i' + 1 = i + k \<and> i' < unat (c_it c))
                     \<or> (i' = unat (c_it c) \<and> i' = i + k)))"
  using assms
proof (induction env c i e s rule: CG_loop.induct)
  case (1 env c i e s)
  show ?case
  proof (cases "i < unat (c_it c)")
    case False
    with "1.prems" have "i' = i" "e' = e" "i = unat (c_it c)"
      by (auto simp add: CG_loop.simps[of env c i e s])
    then show ?thesis by simp
  next
    case True
    let ?s = "CG_body env c i s"
    show ?thesis
    proof (cases "all_converged c ?s")
      case conv: True
      with True "1.prems" have "i' = i" "e' = e + 1" "s' = ?s"
        by (auto simp add: CG_loop.simps[of env c i e s] Let_def)
      with conv True show ?thesis by (intro conjI exI[of _ 1]) simp_all
    next
      case nconv: False
      with True "1.prems" have r: "CG_loop env c (i + 1) (e + 1) ?s = (i', e', s')"
        by (simp add: CG_loop.simps[of env c i e s] Let_def)
      have le: "i + 1 \<le> unat (c_it c)" using True by simp
      from "1.IH"[OF True refl nconv r le]
      obtain k where k: "i' \<le> unat (c_it c)" "e' = e + 1 + k"
        "(all_converged c s' \<and> 0 < k \<and> i' + 1 = i + 1 + k \<and> i' < unat (c_it c))
          \<or> (i' = unat (c_it c) \<and> i' = i + 1 + k)"
        by blast
      show ?thesis
        using k by (intro conjI exI[of _ "k + 1"]) auto
    qed
  qed
qed

lemma uint_min_of_nat:
  assumes "k \<le> unat (m :: 16 word)"
  shows "uint (min (word_of_nat k :: 16 word) m) = int k"
proof -
  have "k < 2 ^ LENGTH(16)"
    using assms unat_lt16[of m] by simp
  then have u: "unat (word_of_nat k :: 16 word) = k"
    by (simp add: unat_of_nat take_bit_nat_eq_self)
  then have "(word_of_nat k :: 16 word) \<le> m"
    using assms by (simp add: word_le_nat_alt)
  then have "min (word_of_nat k :: 16 word) m = word_of_nat k"
    by (simp add: min_def)
  then show ?thesis using u uint_nat[of "word_of_nat k :: 16 word"] by simp
qed


lemma CG_own_loop:
  assumes "\<not> redirected env A" and "mu < 65536"
  shows "CG env is_complex excluded A b x mu =
           Inr (CG_finish is_complex (CG_ctx env excluded A mu) (fst (A_start A excluded b x mu))
                  (CG_loop env (CG_ctx env excluded A mu) 0 0
                     (CG_init env (CG_ctx env excluded A mu) b (snd (A_start A excluded b x mu)))))"
  using assms by (simp add: CG_def Let_def split: prod.splits)

text \<open>
  Claim C3, for CG. When CG runs its own loop it returns, the body of the loop is
  executed at most \<open>it\<close> times and the value returned is at most \<open>it\<close>. The value
  returned is the number of executions of the body only when the loop ends because
  the counter has reached \<open>it\<close>; when the loop ends by the \<open>break\<close> of line 135, on
  convergence, the value returned is one less than the number of executions of the
  body, because of the \<open>--i\<close> of line 134.
\<close>

theorem CG_returns_one_less_on_convergence:
  assumes "\<not> redirected env A" and "mu < 65536"
  shows "\<exists>out. CG env is_complex excluded A b x mu = Inr out
           \<and> executed out \<le> unat (c_it (CG_ctx env excluded A mu))
           \<and> ret out \<le> uint (c_it (CG_ctx env excluded A mu))
           \<and> (0 < executed out \<and> ret out = int (executed out) - 1
                \<or> ret out = int (executed out)
                  \<and> executed out = unat (c_it (CG_ctx env excluded A mu)))"
proof -
  define c where "c = CG_ctx env excluded A mu"
  define allocate where "allocate = fst (A_start A excluded b x mu)"
  define x0 where "x0 = snd (A_start A excluded b x mu)"
  obtain i' e' s' where l: "CG_loop env c 0 0 (CG_init env c b x0) = (i', e', s')"
    by (cases "CG_loop env c 0 0 (CG_init env c b x0)") auto
  define out where "out = CG_finish is_complex c allocate (i', e', s')"
  have cg: "CG env is_complex excluded A b x mu = Inr out"
    using CG_own_loop[OF assms, of is_complex excluded b x] l
    by (simp add: out_def c_def allocate_def x0_def)
  have out: "ret out = uint (min (word_of_nat i' :: 16 word) (c_it c))" "executed out = e'"
    by (simp_all add: out_def CG_finish_def)
  from CG_loop_result[OF l]
  have r: "i' \<le> unat (c_it c)"
    "(0 < e' \<and> i' + 1 = e' \<and> i' < unat (c_it c)) \<or> (i' = unat (c_it c) \<and> i' = e')"
    by auto
  have ret: "ret out = int i'"
    using out(1) r(1) by (simp add: uint_min_of_nat)
  have u: "uint (c_it c) = int (unat (c_it c))"
    by (rule uint_nat)
  have "executed out \<le> unat (c_it c)"
    using r out(2) by auto
  moreover have "ret out \<le> uint (c_it c)"
    unfolding u ret using r(1) by linarith
  moreover have "0 < executed out \<and> ret out = int (executed out) - 1
        \<or> ret out = int (executed out) \<and> executed out = unat (c_it c)"
    unfolding ret out(2) using r(2) by auto
  ultimately show ?thesis
    using cg unfolding c_def[symmetric] by blast
qed


subsection \<open>A run that converges at once\<close>

text \<open>
  One unknown, one right-hand side, the identity as operator and as preconditioner,
  \<open>b = 1\<close>, \<open>x = 0\<close>, tolerance 1/2, cap 5. The first execution of the body solves
  the system; \<open>hasConverged[0]\<close> is set and the loop is left by the \<open>break\<close>.
\<close>

lemma CG_ctx_example: "CG_ctx example_solver_env False identity_operator (Suc 0) = example_ctx"
  by (simp add: CG_ctx_def env_sel op_sel example_ctx_def)

lemma CG_init_example:
  "CG_init example_solver_env example_ctx (array_of (Finite 0) [Finite 1])
     (array_of (Finite 0) [Finite 0]) = example_state_0"
  unfolding CG_init_def example_ctx_def example_state_0_def
  by (simp add: cg_steps cg_offsets blas env_sel op_sel arr Let_def rep16 minus_it_def to_short_def)

lemma CG_body_example:
  "CG_body example_solver_env example_ctx 0 example_state_0 = example_state_1"
  unfolding CG_body_def Let_def
  unfolding example_ctx_def example_state_0_def example_state_1_def
  by (simp add: cg_steps cg_offsets blas env_sel op_sel arr Let_def env_cc upt2
      minus_it_def checkConvergence_spec_def) (auto simp: fun_eq_iff)

lemma all_converged_example: "all_converged example_ctx example_state_1"
  by (simp add: all_converged_def example_ctx_def example_state_1_def minus_it_def)

lemma CG_loop_example:
  "CG_loop example_solver_env example_ctx 0 0 example_state_0 = (0, 1, example_state_1)"
  using all_converged_example
  by (simp add: CG_loop.simps[of example_solver_env example_ctx 0 0 example_state_0]
      CG_body_example) (simp add: example_ctx_def)

lemma not_redirected_example: "\<not> redirected example_solver_env identity_operator"
  by (simp add: redirected_def env_sel)

lemma CG_example:
  "CG example_solver_env False False identity_operator
     (array_of (Finite 0) [Finite 1]) (array_of (Finite 0) [Finite 0]) 1 =
   Inr (CG_finish False example_ctx False (0, 1, example_state_1))"
  using CG_own_loop[OF not_redirected_example, of 1 False False
      "array_of (Finite 0) [Finite 1]" "array_of (Finite 0) [Finite 0]"]
  by (simp add: CG_ctx_example op_sel CG_init_example CG_loop_example)

theorem CG_returns_one_less_on_convergence_witness:
  "\<not> redirected example_solver_env identity_operator \<and> (1 :: nat) < 65536
   \<and> (\<exists>out. CG example_solver_env False False identity_operator
              (array_of (Finite 0) [Finite 1]) (array_of (Finite 0) [Finite 0]) 1 = Inr out
         \<and> executed out = 1 \<and> ret out = 0 \<and> sol out = array_of (Finite 0) [Finite 1]
         \<and> executed out \<le> unat (c_it (CG_ctx example_solver_env False identity_operator 1)))"
proof -
  have m: "(1 :: nat) < 65536" by simp
  from CG_returns_one_less_on_convergence[OF not_redirected_example m, of False False
      "array_of (Finite 0) [Finite 1]" "array_of (Finite 0) [Finite 0]"]
  obtain out where o: "CG example_solver_env False False identity_operator
      (array_of (Finite 0) [Finite 1]) (array_of (Finite 0) [Finite 0]) 1 = Inr out"
    "executed out \<le> unat (c_it (CG_ctx example_solver_env False identity_operator 1))"
    by (elim exE conjE)
  have e: "out = CG_finish False example_ctx False (0, 1, example_state_1)"
    using o(1) unfolding CG_example by simp
  have "executed out = 1" "ret out = 0" "sol out = array_of (Finite 0) [Finite 1]"
    unfolding e by (simp_all add: CG_finish_def example_state_1_def example_ctx_def)
  then show ?thesis
    using not_redirected_example o by (intro conjI exI[of _ out]) simp_all
qed

subsection \<open>A zero right-hand side\<close>

text \<open>
  Claim C6, for CG. One unknown, one right-hand side, the identity as operator and as
  preconditioner, \<open>b = 0\<close>, \<open>x = 0\<close>, cap 1, in IEEE arithmetic and whatever
  \<open>checkConvergence\<close> does. The set-up computes a zero residual and a zero direction.
  The first execution of the body computes \<open>dir[0] / dir[mu]\<close>, which is \<open>0 / 0\<close>, at
  line 114 and adds that multiple of \<open>p\<close> to \<open>x\<close> at line 115: CG returns with a NaN in
  \<open>x\<close>, after one execution of the body.
\<close>

lemma CG_ctx_zero: "CG_ctx (one_step_env cc) False identity_operator (Suc 0) = one_step_ctx"
  by (simp add: CG_ctx_def env1_sel op_sel one_step_ctx_def)

lemma CG_init_zero:
  "CG_init (one_step_env cc) one_step_ctx (array_of (Finite 0) [Finite 0])
     (array_of (Finite 0) [Finite 0]) = zero_state"
  unfolding CG_init_def one_step_ctx_def zero_state_def
  by (simp add: cg_steps cg_offsets blas env1_sel op_sel arr Let_def rep16 minus_it_def to_short_def)

lemma CG_body_zero:
  "cg_x (CG_body (one_step_env cc) one_step_ctx 0 zero_state) = array_of (Finite 0) [NaN]"
  unfolding CG_body_def Let_def
  unfolding one_step_ctx_def zero_state_def
  by (simp add: cg_steps cg_offsets blas env1_sel op_sel arr Let_def upt2 rep16 minus_it_def)

lemma CG_loop_zero:
  "CG_loop (one_step_env cc) one_step_ctx 0 0 zero_state =
     (if all_converged one_step_ctx (CG_body (one_step_env cc) one_step_ctx 0 zero_state) then 0 else 1,
      1, CG_body (one_step_env cc) one_step_ctx 0 zero_state)"
proof -
  have it: "unat (c_it one_step_ctx) = 1" by (simp add: one_step_ctx_def)
  show ?thesis
    by (simp add: CG_loop.simps[of "one_step_env cc" one_step_ctx 0 0 zero_state]
        CG_loop.simps[of "one_step_env cc" one_step_ctx "Suc 0"] it Let_def)
qed

lemma not_redirected_zero: "\<not> redirected (one_step_env cc) identity_operator"
  by (simp add: redirected_def env1_sel)

theorem CG_zero_rhs_yields_NaN:
  "\<forall>cc. \<exists>out. CG (one_step_env cc) False False identity_operator
                 (array_of (Finite 0) [Finite 0]) (array_of (Finite 0) [Finite 0]) 1 = Inr out
             \<and> executed out = 1 \<and> sol out 0 = NaN"
proof
  fix cc
  have m: "(1 :: nat) < 65536" by simp
  have "CG (one_step_env cc) False False identity_operator
          (array_of (Finite 0) [Finite 0]) (array_of (Finite 0) [Finite 0]) 1 =
        Inr (CG_finish False one_step_ctx False
               (if all_converged one_step_ctx (CG_body (one_step_env cc) one_step_ctx 0 zero_state)
                then 0 else 1,
                1, CG_body (one_step_env cc) one_step_ctx 0 zero_state))"
    using CG_own_loop[OF not_redirected_zero m, of cc False False
        "array_of (Finite 0) [Finite 0]" "array_of (Finite 0) [Finite 0]"]
    by (simp add: CG_ctx_zero op_sel CG_init_zero CG_loop_zero)
  then show "\<exists>out. CG (one_step_env cc) False False identity_operator
                 (array_of (Finite 0) [Finite 0]) (array_of (Finite 0) [Finite 0]) 1 = Inr out
             \<and> executed out = 1 \<and> sol out 0 = NaN"
    by (simp add: CG_finish_def CG_body_zero array_of_def)
qed

subsection \<open>The fall-back of BCG\<close>

lemma bcg_x_allreduce [simp]: "bcg_x (bcg_allreduce env off n s) = bcg_x s"
  by (simp add: bcg_allreduce_def split_beta)












section \<open>Properties of PCG\<close>

subsection \<open>The course of the loop\<close>

lemma PCG_before_Suc:
  "1 \<le> k \<Longrightarrow> PCG_before env c s (Suc k) = pcg_next env c (Suc k) (PCG_at env c s k)"
  by (cases k) (simp_all add: PCG_at_def)

lemma PCG_body_at:
  "PCG_body env c k (PCG_before env c s k) = (PCG_resRel env c s k, PCG_at env c s k)"
  by (simp add: PCG_at_def PCG_resRel_def)

lemma PCG_written_Suc:
  "PCG_written env c v s (Suc k) =
     PCG_written env c v s k @ pcg_cout env c v (Suc k) (PCG_resRel env c s (Suc k))"
  by (simp add: PCG_written_def)

lemma PCG_written_0 [simp]: "PCG_written env c v s 0 = []"
  by (simp add: PCG_written_def)

lemma unat_m1_16: "unat (- 1 :: 16 word) = 65535"
  by (simp add: unsigned_minus_1_eq_mask mask_eq_exp_minus_1)

lemma unat_le_it: "(i :: 16 word) \<le> it \<longleftrightarrow> unat i \<le> unat it"
  by (simp add: word_le_nat_alt)

lemma PCG_loop_converges:
  assumes "unat i = k" "1 \<le> k" "k \<le> j" "j \<le> unat (g_it c)"
    and "pcg_converged env c (PCG_resRel env c s j)"
    and "\<forall>l. k \<le> l \<and> l < j \<longrightarrow> \<not> pcg_converged env c (PCG_resRel env c s l)"
  shows "PCG_loop env c v i (k - 1) (PCG_before env c s k, PCG_written env c v s (k - 1)) =
           Inr (word_of_nat j, j, PCG_at env c s j, PCG_written env c v s j)"
  using assms
proof (induction "j - k" arbitrary: i k)
  case 0
  then have kj: "k = j" by simp
  have i: "i \<le> g_it c" using 0 by (simp add: unat_le_it)
  have w: "word_of_nat j = i" using 0(2) kj by auto
  have p: "PCG_written env c v s (j - 1) @ pcg_cout env c v j (PCG_resRel env c s j) =
      PCG_written env c v s j"
    using 0(3) kj PCG_written_Suc[of env c v s "j - 1"] by simp
  show ?case
    using i 0(6) 0(3) p unfolding kj
    by (subst PCG_loop.simps) (simp add: 0(2)[unfolded kj] PCG_body_at w Let_def)
next
  case (Suc d)
  then have lt: "k < j" by simp
  have i: "i \<le> g_it c" using Suc.prems by (simp add: unat_le_it)
  have nc: "\<not> pcg_converged env c (PCG_resRel env c s k)" using Suc.prems lt by simp
  have ne: "i \<noteq> - 1"
  proof
    assume "i = - 1"
    then have "unat i = 65535" by (simp add: unat_m1_16)
    then show False using Suc.prems lt unat_lt16[of "g_it c"] by simp
  qed
  have u: "unat (i + 1) = Suc k" using ne Suc.prems(1) by (simp add: unat_succ16)
  have p: "PCG_written env c v s (k - Suc 0) @ pcg_cout env c v k (PCG_resRel env c s k) =
      PCG_written env c v s k"
    using Suc.prems(2) PCG_written_Suc[of env c v s "k - 1"] by simp
  have b: "pcg_next env c (Suc k) (PCG_at env c s k) = PCG_before env c s (Suc k)"
    using Suc.prems(2) by (simp add: PCG_before_Suc)
  have IH: "PCG_loop env c v (i + 1) (Suc k - 1) (PCG_before env c s (Suc k), PCG_written env c v s (Suc k - 1)) =
      Inr (word_of_nat j, j, PCG_at env c s j, PCG_written env c v s j)"
    using Suc.prems Suc.hyps(2) lt u by (intro Suc.hyps(1)) auto
  have e: "Suc (k - Suc 0) = k" using Suc.prems(2) by simp
  show ?case
    using i nc ne IH
    by (subst PCG_loop.simps) (simp add: Suc.prems(1) PCG_body_at Let_def p u b e)
qed

lemma PCG_loop_exhausts:
  assumes "unat i = k" "1 \<le> k" "k \<le> unat (g_it c) + 1" "g_it c \<noteq> - 1"
    and "\<forall>l. k \<le> l \<and> l \<le> unat (g_it c) \<longrightarrow> \<not> pcg_converged env c (PCG_resRel env c s l)"
  shows "PCG_loop env c v i (k - 1) (PCG_before env c s k, PCG_written env c v s (k - 1)) =
           Inr (g_it c + 1, unat (g_it c), PCG_before env c s (unat (g_it c) + 1),
                PCG_written env c v s (unat (g_it c)))"
  using assms
proof (induction "unat (g_it c) + 1 - k" arbitrary: i k)
  case 0
  then have k: "k = unat (g_it c) + 1" by simp
  have u: "unat (g_it c + 1) = unat (g_it c) + 1" using 0 by (simp add: unat_succ16)
  have w: "i = g_it c + 1" using 0(2) k u by (simp add: word_unat_eq_iff)
  have "\<not> i \<le> g_it c" using 0(2) k by (simp add: unat_le_it)
  then show ?case
    unfolding k using w by (subst PCG_loop.simps) simp
next
  case (Suc d)
  then have le: "k \<le> unat (g_it c)" by simp
  have i: "i \<le> g_it c" using Suc.prems le by (simp add: unat_le_it)
  have nc: "\<not> pcg_converged env c (PCG_resRel env c s k)" using Suc.prems le by simp
  have ne: "i \<noteq> - 1"
    using i Suc.prems(4) by (metis word_order.extremum_uniqueI)
  have u: "unat (i + 1) = Suc k" using ne Suc.prems(1) by (simp add: unat_succ16)
  have p: "PCG_written env c v s (k - Suc 0) @ pcg_cout env c v k (PCG_resRel env c s k) =
      PCG_written env c v s k"
    using Suc.prems(2) PCG_written_Suc[of env c v s "k - 1"] by simp
  have b: "pcg_next env c (Suc k) (PCG_at env c s k) = PCG_before env c s (Suc k)"
    using Suc.prems(2) by (simp add: PCG_before_Suc)
  have IH: "PCG_loop env c v (i + 1) (Suc k - 1) (PCG_before env c s (Suc k), PCG_written env c v s (Suc k - 1)) =
      Inr (g_it c + 1, unat (g_it c), PCG_before env c s (unat (g_it c) + 1),
           PCG_written env c v s (unat (g_it c)))"
    using Suc.prems Suc.hyps(2) le u by (intro Suc.hyps(1)) auto
  have e: "Suc (k - Suc 0) = k" using Suc.prems(2) by simp
  show ?case
    using i nc ne IH
    by (subst PCG_loop.simps) (simp add: Suc.prems(1) PCG_body_at Let_def p u b e)
qed

lemma PCG_loop_wraps:
  assumes "unat i = k" "1 \<le> k" "g_it c = - 1"
    and "\<forall>l. k \<le> l \<and> l \<le> 65535 \<longrightarrow> \<not> pcg_converged env c (PCG_resRel env c s l)"
  shows "PCG_loop env c v i (k - 1) (PCG_before env c s k, PCG_written env c v s (k - 1)) =
           Inl Counter_wraps"
  using assms
proof (induction "65535 - k" arbitrary: i k)
  case 0
  have "k \<le> 65535" using 0(2) unat_lt16[of i] by simp
  then have k: "k = 65535" using 0 by simp
  have w: "i = - 1"
    using 0(2) k by (simp add: word_unat_eq_iff unat_m1_16)
  have nc: "\<not> pcg_converged env c (PCG_resRel env c s 65535)" using 0 k by simp
  show ?case
    unfolding k using w nc 0(4)
    by (subst PCG_loop.simps) (simp add: PCG_body_at Let_def unat_m1_16)
next
  case (Suc d)
  then have lt: "k < 65535" by simp
  have i: "i \<le> g_it c" using Suc.prems by simp
  have nc: "\<not> pcg_converged env c (PCG_resRel env c s k)" using Suc.prems lt by simp
  have ne: "i \<noteq> - 1"
  proof
    assume "i = - 1"
    then have "unat i = 65535" by (simp add: unat_m1_16)
    then show False using Suc.prems lt by simp
  qed
  have u: "unat (i + 1) = Suc k" using ne Suc.prems(1) by (simp add: unat_succ16)
  have p: "PCG_written env c v s (k - Suc 0) @ pcg_cout env c v k (PCG_resRel env c s k) =
      PCG_written env c v s k"
    using Suc.prems(2) PCG_written_Suc[of env c v s "k - 1"] by simp
  have b: "pcg_next env c (Suc k) (PCG_at env c s k) = PCG_before env c s (Suc k)"
    using Suc.prems(2) by (simp add: PCG_before_Suc)
  have IH: "PCG_loop env c v (i + 1) (Suc k - 1) (PCG_before env c s (Suc k), PCG_written env c v s (Suc k - 1)) =
      Inl Counter_wraps"
    using Suc.prems Suc.hyps(2) lt u by (intro Suc.hyps(1)) auto
  have e: "Suc (k - Suc 0) = k" using Suc.prems(2) by simp
  show ?case
    using i nc ne IH
    by (subst PCG_loop.simps) (simp add: Suc.prems(1) PCG_body_at Let_def p u b e)
qed

lemma PCG_init_ctx:
  assumes "PCG_init env excluded A f x tol it = (c, s)"
  shows "g_it c = it" "g_A c = A" "g_excluded c = excluded" "g_tol c = tol"
  using assms by (auto simp: PCG_init_def Let_def split_beta)

lemma PCG_first_state:
  "(PCG_before env c s (Suc 0), PCG_written env c v s (Suc 0 - 1)) = (s, [])"
  by simp

subsection \<open>When PCG stops\<close>

text \<open>
  Claim C4. Let \<open>resRel k\<close> be the residual norm the \<open>k\<close>-th execution of the body
  computes (\<open>PCG_resRel\<close>), and say that iteration \<open>k\<close> passes the test when
  \<open>resRel k / resInit <= tol\<close> (\<open>pcg_converged\<close>).
  \<^item> If \<open>j\<close>, between 1 and \<open>it\<close>, is the first iteration that passes the test, PCG
    returns \<open>j\<close> after \<open>j\<close> executions of the body, in the state in which the \<open>j\<close>-th
    one leaves the memory.
  \<^item> If no iteration up to \<open>it\<close> passes the test and \<open>it\<close> is less than 65535, PCG
    returns \<open>it\<close> after \<open>it\<close> executions of the body.
  \<^item> If no iteration up to \<open>it\<close> passes the test and \<open>it\<close> is 65535, the counter wraps
    to 0 after the 65535th execution of the body and the loop does not end by the cap.
\<close>

theorem PCG_stops_at_first_convergence_or_cap:
  assumes init: "PCG_init env excluded A f x tol it = (c, s)"
  shows "(\<forall>j. 1 \<le> j \<and> j \<le> unat it \<and> pcg_converged env c (PCG_resRel env c s j)
              \<and> (\<forall>l. 1 \<le> l \<and> l < j \<longrightarrow> \<not> pcg_converged env c (PCG_resRel env c s l)) \<longrightarrow>
            (\<exists>out w. PCG_with env excluded A f x tol it verbosity = Inr (out, PCG_at env c s j, w)
                \<and> ret out = int j \<and> executed out = j))
       \<and> ((\<forall>l. 1 \<le> l \<and> l \<le> unat it \<longrightarrow> \<not> pcg_converged env c (PCG_resRel env c s l))
              \<and> it \<noteq> - 1 \<longrightarrow>
            (\<exists>out w. PCG_with env excluded A f x tol it verbosity =
                        Inr (out, PCG_before env c s (unat it + 1), w)
                \<and> ret out = uint it \<and> executed out = unat it))
       \<and> ((\<forall>l. 1 \<le> l \<and> l \<le> unat it \<longrightarrow> \<not> pcg_converged env c (PCG_resRel env c s l))
              \<and> it = - 1 \<longrightarrow>
            PCG_with env excluded A f x tol it verbosity = Inl Counter_wraps)"
proof (intro conjI allI impI)
  fix j
  assume a: "1 \<le> j \<and> j \<le> unat it \<and> pcg_converged env c (PCG_resRel env c s j)
              \<and> (\<forall>l. 1 \<le> l \<and> l < j \<longrightarrow> \<not> pcg_converged env c (PCG_resRel env c s l))"
  have u: "unat (1 :: 16 word) = 1" by simp
  have "PCG_loop env c verbosity 1 (1 - 1) (PCG_before env c s 1, PCG_written env c verbosity s (1 - 1)) =
          Inr (word_of_nat j, j, PCG_at env c s j, PCG_written env c verbosity s j)"
    using a PCG_init_ctx(1)[OF init] by (intro PCG_loop_converges[OF u]) auto
  then have l: "PCG_loop env c verbosity 1 0 (s, []) =
          Inr (word_of_nat j, j, PCG_at env c s j, PCG_written env c verbosity s j)"
    by simp
  have r: "uint (min (word_of_nat j :: 16 word) (g_it c)) = int j"
    using a PCG_init_ctx(1)[OF init] by (intro uint_min_of_nat) simp
  show "\<exists>out w. PCG_with env excluded A f x tol it verbosity = Inr (out, PCG_at env c s j, w)
                \<and> ret out = int j \<and> executed out = j"
    using init l r by (simp add: PCG_with_def PCG_finish_def)
next
  assume a: "(\<forall>l. 1 \<le> l \<and> l \<le> unat it \<longrightarrow> \<not> pcg_converged env c (PCG_resRel env c s l))
              \<and> it \<noteq> - 1"
  have u: "unat (1 :: 16 word) = 1" by simp
  have g: "g_it c = it" by (rule PCG_init_ctx(1)[OF init])
  have "PCG_loop env c verbosity 1 (1 - 1) (PCG_before env c s 1, PCG_written env c verbosity s (1 - 1)) =
          Inr (g_it c + 1, unat (g_it c), PCG_before env c s (unat (g_it c) + 1),
               PCG_written env c verbosity s (unat (g_it c)))"
    using a g by (intro PCG_loop_exhausts[OF u]) auto
  then have l: "PCG_loop env c verbosity 1 0 (s, []) =
          Inr (it + 1, unat it, PCG_before env c s (unat it + 1),
               PCG_written env c verbosity s (unat it))"
    unfolding g by simp
  have "\<not> it + 1 \<le> it"
    using a unat_succ16[of it] by (simp add: unat_le_it)
  then have r: "min (it + 1) it = it" by (simp add: min_def)
  show "\<exists>out w. PCG_with env excluded A f x tol it verbosity =
                        Inr (out, PCG_before env c s (unat it + 1), w)
                \<and> ret out = uint it \<and> executed out = unat it"
    using init l r g by (simp add: PCG_with_def PCG_finish_def)
next
  assume a: "(\<forall>l. 1 \<le> l \<and> l \<le> unat it \<longrightarrow> \<not> pcg_converged env c (PCG_resRel env c s l))
              \<and> it = - 1"
  have u: "unat (1 :: 16 word) = 1" by simp
  have g: "g_it c = - 1" using a PCG_init_ctx(1)[OF init] by simp
  have "PCG_loop env c verbosity 1 (1 - 1) (PCG_before env c s 1, PCG_written env c verbosity s (1 - 1)) =
          Inl Counter_wraps"
    using a g by (intro PCG_loop_wraps[OF u]) (auto simp: unat_m1_16)
  then have l: "PCG_loop env c verbosity 1 0 (s, []) = Inl Counter_wraps"
    by simp
  show "PCG_with env excluded A f x tol it verbosity = Inl Counter_wraps"
    using init l by (simp add: PCG_with_def)
qed

lemma constant_sel:
  "F_computeDot constant_operator = (\<lambda>k excluded a b. Finite 1)"
  "F_prefix constant_operator = []"
  by (simp_all add: constant_operator_def)

lemma constant_init:
  "g_A (fst (PCG_init example_solver_env False constant_operator f x tol it)) = constant_operator"
  "g_resInit (fst (PCG_init example_solver_env False constant_operator f x tol it)) = Finite 1"
  "g_tol (fst (PCG_init example_solver_env False constant_operator f x tol it)) = tol"
  by (simp_all add: PCG_init_def Let_def split_beta constant_sel env_sel)

lemma constant_resRel:
  "PCG_resRel example_solver_env
     (fst (PCG_init example_solver_env False constant_operator f x tol it)) s k = Finite 1"
  by (simp add: PCG_resRel_def PCG_body_def Let_def split_beta constant_init constant_sel env_sel)

lemma constant_converged:
  "pcg_converged example_solver_env
     (fst (PCG_init example_solver_env False constant_operator f x tol it))
     (PCG_resRel example_solver_env
        (fst (PCG_init example_solver_env False constant_operator f x tol it)) s k)
   \<longleftrightarrow> ieee_le (Finite 1) tol"
  by (simp add: constant_resRel pcg_converged_def constant_init env_sel)

theorem PCG_stops_at_first_convergence_or_cap_witness:
  "(\<exists>out st w. PCG_with example_solver_env False constant_operator
                  (array_of (Finite 0) [Finite 1]) (array_of (Finite 0) [Finite 0]) (Finite 2) 5 0 =
                Inr (out, st, w) \<and> ret out = 1 \<and> executed out = 1)
   \<and> (\<exists>out st w. PCG_with example_solver_env False constant_operator
                  (array_of (Finite 0) [Finite 1]) (array_of (Finite 0) [Finite 0]) (Finite (1 / 2)) 5 0 =
                Inr (out, st, w) \<and> ret out = 5 \<and> executed out = 5)
   \<and> PCG_with example_solver_env False constant_operator
        (array_of (Finite 0) [Finite 1]) (array_of (Finite 0) [Finite 0]) (Finite (1 / 2)) (- 1) 0 =
      Inl Counter_wraps"
proof -
  let ?f = "array_of (Finite 0) [Finite 1]" and ?x = "array_of (Finite 0) [Finite 0]"
  have i: "\<And>tol it. PCG_init example_solver_env False constant_operator ?f ?x tol it =
      (fst (PCG_init example_solver_env False constant_operator ?f ?x tol it),
       snd (PCG_init example_solver_env False constant_operator ?f ?x tol it))"
    by simp
  note T = PCG_stops_at_first_convergence_or_cap[OF i, where verbosity = 0]
  have a: "\<exists>out w. PCG_with example_solver_env False constant_operator ?f ?x (Finite 2) 5 0 =
        Inr (out, PCG_at example_solver_env
               (fst (PCG_init example_solver_env False constant_operator ?f ?x (Finite 2) 5))
               (snd (PCG_init example_solver_env False constant_operator ?f ?x (Finite 2) 5)) 1, w)
      \<and> ret out = int 1 \<and> executed out = 1"
    by (rule T[where tol = "Finite 2" and it = 5, THEN conjunct1, THEN spec, THEN mp])
      (simp add: constant_converged)
  have b: "\<exists>out w. PCG_with example_solver_env False constant_operator ?f ?x (Finite (1 / 2)) 5 0 =
        Inr (out, PCG_before example_solver_env
               (fst (PCG_init example_solver_env False constant_operator ?f ?x (Finite (1 / 2)) 5))
               (snd (PCG_init example_solver_env False constant_operator ?f ?x (Finite (1 / 2)) 5))
               (unat (5 :: 16 word) + 1), w)
      \<and> ret out = uint (5 :: 16 word) \<and> executed out = unat (5 :: 16 word)"
    by (rule T[where tol = "Finite (1 / 2)" and it = 5, THEN conjunct2, THEN conjunct1, THEN mp])
      (simp add: constant_converged)
  have c: "PCG_with example_solver_env False constant_operator ?f ?x (Finite (1 / 2)) (- 1) 0 =
      Inl Counter_wraps"
    by (rule T[where tol = "Finite (1 / 2)" and it = "- 1", THEN conjunct2, THEN conjunct2, THEN mp])
      (simp add: constant_converged)
  from a obtain out1 w1 st1 where a': "PCG_with example_solver_env False constant_operator ?f ?x
      (Finite 2) 5 0 = Inr (out1, st1, w1)" "ret out1 = 1" "executed out1 = 1"
    by auto
  from b obtain out2 w2 st2 where b': "PCG_with example_solver_env False constant_operator ?f ?x
      (Finite (1 / 2)) 5 0 = Inr (out2, st2, w2)" "ret out2 = 5" "executed out2 = 5"
    by auto
  show ?thesis
    using a' b' c by simp
qed

subsection \<open>The verbosity\<close>

lemma PCG_loop_verbosity:
  "map_sum id (\<lambda>(i, e, s, w). (i, e, s)) (PCG_loop env c v i e (s, w)) =
   map_sum id (\<lambda>(i, e, s, w). (i, e, s)) (PCG_loop env c v' i e (s, w'))"
proof (induction "65536 - unat i" arbitrary: i e s w w' rule: less_induct)
  case less
  show ?case
  proof (cases "i \<le> g_it c")
    case False
    then show ?thesis
      by (subst PCG_loop.simps, subst (2) PCG_loop.simps) simp
  next
    case True
    obtain resRel s1 where b: "PCG_body env c (unat i) s = (resRel, s1)"
      by (cases "PCG_body env c (unat i) s") auto
    show ?thesis
    proof (cases "pcg_converged env c resRel \<or> i = - 1")
      case True
      with \<open>i \<le> g_it c\<close> b show ?thesis
        by (subst PCG_loop.simps, subst (2) PCG_loop.simps) (auto simp: Let_def)
    next
      case False
      then have ne: "i \<noteq> - 1" and nc: "\<not> pcg_converged env c resRel" by simp_all
      have m: "65536 - unat (i + 1) < 65536 - unat i"
        using ne by (rule measure_succ16)
      note IH = less[OF m, of "e + 1" "pcg_next env c (unat (i + 1)) s1"
          "w @ pcg_cout env c v (unat i) resRel" "w' @ pcg_cout env c v' (unat i) resRel"]
      show ?thesis
        using True b ne nc IH
        by (subst PCG_loop.simps, subst (2) PCG_loop.simps) (simp add: Let_def)
    qed
  qed
qed

lemma PCG_with_verbosity:
  "map_sum id (\<lambda>(out, st, w). (out, st)) (PCG_with env excluded A f x tol it v) =
   map_sum id (\<lambda>(out, st, w). (out, st)) (PCG_with env excluded A f x tol it v')"
proof -
  obtain c s where i: "PCG_init env excluded A f x tol it = (c, s)"
    by (cases "PCG_init env excluded A f x tol it") auto
  show ?thesis
    using PCG_loop_verbosity[of env c v 1 0 s "[]" v' "[]"]
    by (cases "PCG_loop env c v 1 0 (s, [])"; cases "PCG_loop env c v' 1 0 (s, [])")
      (auto simp: PCG_with_def i PCG_finish_def)
qed

lemma dot_options: "dot (env\<lparr>options := opts\<rparr>) n x y = dot env n x y"
  by (simp add: dot_def)

lemma axpy_options: "axpy (env\<lparr>options := opts\<rparr>) n a x y = axpy env n a x y"
  by (simp add: axpy_def)

lemma diag_options: "diag (env\<lparr>options := opts\<rparr>) n d x mu = diag env n d x mu"
  by (simp add: diag_def split: option.splits)

lemma MPI_Allreduce_options:
  "MPI_Allreduce (env\<lparr>options := opts\<rparr>) rem buf off cnt dt c = MPI_Allreduce env rem buf off cnt dt c"
  by (simp add: MPI_Allreduce_def)

lemma pcg_dot_options: "pcg_dot (env\<lparr>options := opts\<rparr>) = pcg_dot env"
  by (simp add: pcg_dot_def fun_eq_iff dot_options)

lemma pcg_axpy_options: "pcg_axpy (env\<lparr>options := opts\<rparr>) = pcg_axpy env"
  by (simp add: pcg_axpy_def fun_eq_iff axpy_options)

lemma pcg_allreduce_options: "pcg_allreduce (env\<lparr>options := opts\<rparr>) = pcg_allreduce env"
  by (simp add: pcg_allreduce_def fun_eq_iff MPI_Allreduce_options)

lemma pcg_direction_options: "pcg_direction (env\<lparr>options := opts\<rparr>) = pcg_direction env"
  by (simp add: pcg_direction_def fun_eq_iff pcg_dot_options pcg_axpy_options pcg_allreduce_options
      Let_def split_beta)

lemma pcg_step_options: "pcg_step (env\<lparr>options := opts\<rparr>) = pcg_step env"
  by (simp add: pcg_step_def fun_eq_iff pcg_dot_options pcg_axpy_options pcg_allreduce_options
      diag_options axpy_options Let_def)

lemma pcg_excluded_step_options:
  "pcg_excluded_step (env\<lparr>options := opts\<rparr>) = pcg_excluded_step env"
  by (simp add: pcg_excluded_step_def fun_eq_iff pcg_allreduce_options Let_def)

lemma PCG_body_options: "PCG_body (env\<lparr>options := opts\<rparr>) = PCG_body env"
  by (simp add: PCG_body_def fun_eq_iff pcg_direction_options pcg_step_options
      pcg_excluded_step_options Let_def)

lemma pcg_next_options: "pcg_next (env\<lparr>options := opts\<rparr>) = pcg_next env"
  by (simp add: pcg_next_def fun_eq_iff diag_options Let_def)

lemma pcg_converged_options: "pcg_converged (env\<lparr>options := opts\<rparr>) = pcg_converged env"
  by (simp add: pcg_converged_def fun_eq_iff)

lemma pcg_cout_options: "pcg_cout (env\<lparr>options := opts\<rparr>) = pcg_cout env"
  by (simp add: pcg_cout_def fun_eq_iff)

lemma PCG_loop_options:
  "PCG_loop (env\<lparr>options := opts\<rparr>) c v i e so = PCG_loop env c v i e so"
proof (induction "65536 - unat i" arbitrary: i e so rule: less_induct)
  case less
  show ?case
  proof (cases "i \<le> g_it c \<and> i \<noteq> - 1")
    case False
    then show ?thesis
      by (subst PCG_loop.simps, subst (2) PCG_loop.simps)
        (auto simp: PCG_body_options pcg_converged_options pcg_cout_options Let_def split_beta)
  next
    case True
    then have m: "65536 - unat (i + 1) < 65536 - unat i"
      by (intro measure_succ16) simp
    show ?thesis
      using True less[OF m]
      by (subst PCG_loop.simps, subst (2) PCG_loop.simps)
        (simp add: PCG_body_options pcg_converged_options pcg_cout_options pcg_next_options
          Let_def split_beta)
  qed
qed

lemma PCG_init_options:
  "PCG_init (env\<lparr>options := opts\<rparr>) = PCG_init env"
  by (simp add: PCG_init_def fun_eq_iff Let_def split_beta)

lemma PCG_with_options:
  "PCG_with (env\<lparr>options := opts\<rparr>) excluded A f x tol it v = PCG_with env excluded A f x tol it v"
  by (simp add: PCG_with_def PCG_init_options PCG_loop_options)

text \<open>
  Claim C9. Two runs of PCG in settings that differ by the verbosity \<open>options<6>\<close>
  returns, and by nothing else, end in the same way: both fail in the same way, or
  both return, with the same value, the same contents of \<open>x\<close>, the same events (the
  reductions with the values reduced, the frees, the end of the operator's scope), the
  same number of executions of the body and the same final contents of every array of
  the iteration. Only what is written to \<open>std::cout\<close> and the argument of
  \<open>convergence<6>\<close> differ.
\<close>

theorem PCG_verbosity_is_observational:
  assumes "options env 6 (F_prefix A) = (tol, it, v, u)"
    and "env' = env\<lparr>options := (\<lambda>N prefix. (tol, it, v', u))\<rparr>"
  shows "map_sum id (\<lambda>(out, st, w). (out, st)) (PCG env' excluded A f x) =
         map_sum id (\<lambda>(out, st, w). (out, st)) (PCG env excluded A f x)"
  using assms PCG_with_verbosity[of env excluded A f x tol it v' v]
  by (simp add: PCG_def PCG_with_options)

theorem PCG_verbosity_is_observational_witness:
  "options example_solver_env 6 (F_prefix constant_operator) = (Finite (1 / 2), 5, 0, 0)
   \<and> map_sum id (\<lambda>(out, st, w). (out, st))
       (PCG (example_solver_env\<lparr>options := (\<lambda>N prefix. (Finite (1 / 2), 5, 3, 0))\<rparr>) False
          constant_operator (array_of (Finite 0) [Finite 1]) (array_of (Finite 0) [Finite 0])) =
     map_sum id (\<lambda>(out, st, w). (out, st))
       (PCG example_solver_env False constant_operator
          (array_of (Finite 0) [Finite 1]) (array_of (Finite 0) [Finite 0]))"
proof -
  have o: "options example_solver_env 6 (F_prefix constant_operator) = (Finite (1 / 2), 5, 0, 0)"
    by (simp add: env_sel)
  show ?thesis
    using o PCG_verbosity_is_observational[OF o refl, of 3 False
        "array_of (Finite 0) [Finite 1]" "array_of (Finite 0) [Finite 0]"]
    by simp
qed

end
